theory Spec2Isabelle
  imports
    Complex_Main
    "HOL-Library.AList"
    "HOL-Library.Sublist"
    "HOL-Library.Char_ord"
    "HOL-Library.List_Lexorder"
begin

section \<open>The MAISI diffusion-model training tutorial notebook\<close>

text \<open>
  The source is one Jupyter notebook,
  \<^verbatim>\<open>generation/maisi/maisi_diff_unet_training_tutorial.ipynb\<close>. Its code cells are
  embedded one by one, in the order in which the notebook lists them. A cell is a
  function from the state of the kernel and of the machine (the record \<open>world\<close>) to an
  outcome and the state it leaves behind; an exception that escapes a cell stops the
  run there, as "Run All" does, and the state reached so far stays. A cell that never
  returns stops the run as well.

  What lies outside the notebook is a parameter (the record \<open>platform\<close>): what a
  launched process does, and the voxels that MONAI's image synthesis draws.
\<close>

subsection \<open>Python values\<close>

text \<open>
  A JSON document: what \<^verbatim>\<open>json.load\<close> returns for a file and what \<^verbatim>\<open>json.dump\<close> writes,
  as a tree. An object keeps its keys in order, as a Python \<^verbatim>\<open>dict\<close> does. A float is
  the real number it stands for (the notebook never computes with one).
\<close>

datatype json =
    JNull
  | JBool bool
  | JInt int
  | JFloat real
  | JStr string
  | JArr "json list"
  | JObj "(string \<times> json) list"

text \<open>The exceptions of the Python calls the notebook makes, each with its message.\<close>

datatype error =
    FileNotFoundError string
  | FileExistsError string
  | IsADirectoryError string
  | JSONDecodeError string
  | ImageFileError string
  | KeyError string
  | TypeError string
  | ValueError string
  | UnicodeDecodeError string
  | NameError string

fun str_error :: "error \<Rightarrow> string" where
  "str_error (FileNotFoundError m) = m"
| "str_error (FileExistsError m) = m"
| "str_error (IsADirectoryError m) = m"
| "str_error (JSONDecodeError m) = m"
| "str_error (ImageFileError m) = m"
| "str_error (KeyError m) = m"
| "str_error (TypeError m) = m"
| "str_error (ValueError m) = m"
| "str_error (UnicodeDecodeError m) = m"
| "str_error (NameError m) = m"

text \<open>\<^verbatim>\<open>str(n)\<close> of an integer: its decimal digits.\<close>

definition digit_char :: "nat \<Rightarrow> char" where
  "digit_char d =
     (if d = 0 then CHR ''0'' else if d = 1 then CHR ''1'' else if d = 2 then CHR ''2''
      else if d = 3 then CHR ''3'' else if d = 4 then CHR ''4'' else if d = 5 then CHR ''5''
      else if d = 6 then CHR ''6'' else if d = 7 then CHR ''7'' else if d = 8 then CHR ''8''
      else CHR ''9'')"

function str_nat :: "nat \<Rightarrow> string" where
  "str_nat n = (if n < 10 then [digit_char n] else str_nat (n div 10) @ [digit_char (n mod 10)])"
  by pat_completeness auto
termination
  by (relation "measure id") auto

definition str_int :: "int \<Rightarrow> string" where
  "str_int i = (if i < 0 then CHR ''-'' # str_nat (nat (- i)) else str_nat (nat i))"

text \<open>
  The text that a process writes and that \<^verbatim>\<open>print\<close> shows is a Python \<^verbatim>\<open>str\<close> of any
  characters: the list of their code points (\<^verbatim>\<open>ord(c)\<close>). \<open>ustr\<close> is a string literal
  of the source as such a text.
\<close>

type_synonym unicode = "int list"

definition ustr :: "string \<Rightarrow> unicode" where
  "ustr s = map of_char s"

text \<open>
  \<^verbatim>\<open>s.strip()\<close> takes the characters of \<^verbatim>\<open>str.isspace\<close> off both ends: the code points
  of Unicode's category \<^verbatim>\<open>Zs\<close> and of the bidirectional classes \<^verbatim>\<open>WS\<close>, \<^verbatim>\<open>B\<close> and \<^verbatim>\<open>S\<close>.
\<close>

definition isspace :: "int \<Rightarrow> bool" where
  "isspace c =
     (c \<in> {0x09, 0x0A, 0x0B, 0x0C, 0x0D, 0x1C, 0x1D, 0x1E, 0x1F, 0x20, 0x85, 0xA0, 0x1680,
            0x2000, 0x2001, 0x2002, 0x2003, 0x2004, 0x2005, 0x2006, 0x2007, 0x2008, 0x2009,
            0x200A, 0x2028, 0x2029, 0x202F, 0x205F, 0x3000})"

definition strip :: "unicode \<Rightarrow> unicode" where
  "strip s = rev (dropWhile isspace (rev (dropWhile isspace s)))"

text \<open>\<^verbatim>\<open>s.endswith(t)\<close>.\<close>

definition endswith :: "string \<Rightarrow> string \<Rightarrow> bool" where
  "endswith s t = (length t \<le> length s \<and> drop (length s - length t) s = t)"

text \<open>
  \<^verbatim>\<open>os.path.join(a, b)\<close> of \<^verbatim>\<open>posixpath\<close>: an absolute \<open>b\<close> replaces \<open>a\<close>; otherwise
  \<open>b\<close> is appended, after a separator unless \<open>a\<close> is empty or ends with one.
\<close>

definition os_path_join :: "string \<Rightarrow> string \<Rightarrow> string" where
  "os_path_join a b =
     (if b \<noteq> [] \<and> hd b = CHR ''/'' then b
      else if a = [] \<or> last a = CHR ''/'' then a @ b
      else a @ ''/'' @ b)"

subsection \<open>Files, images and processes\<close>

text \<open>
  A NIfTI image as nibabel holds it: the shape of the data array, the voxel sizes of
  the header (\<^verbatim>\<open>header.get_zooms()\<close>), the affine and the voxel data.
\<close>

record nifti =
  img_shape :: "nat list"
  img_zooms :: "real list"
  img_affine :: "real list list"
  img_data :: "real list"

text \<open>A numpy array: its shape and its elements.\<close>

record ndarray =
  arr_shape :: "nat list"
  arr_data :: "real list"

text \<open>
  What a path names: a directory, a file holding a JSON document, a file holding a
  NIfTI image, or a file of other bytes.
\<close>

datatype entry =
    Dir
  | JsonFile json
  | NiftiFile nifti
  | OtherFile string

text \<open>
  The file system maps a path to what it names. A path is the string the program
  hands to the operating system: two spellings of one path (\<^verbatim>\<open>a/./b\<close> and \<^verbatim>\<open>a/b\<close>,
  links) are different keys here, and a file lies below a directory when its path
  continues the directory's. The list has one pair for a path at most in every state
  the operations below build from such a list.
\<close>

type_synonym filesystem = "(string \<times> entry) list"

text \<open>What the notebook itself does to the file system, in order (a record kept for the proofs).\<close>

datatype fs_event =
    Wrote string entry
  | MadeDir string

text \<open>
  A launched process, as its parent sees it. The parent only asks, and the process is
  what it is answered, in order:

  \<^item> \<open>pending\<close>: what the successive \<^verbatim>\<open>process.stdout.readline()\<close> calls do before the
    end of the stream. A call waits until the process has produced a line and returns
    it (\<open>Line\<close>); or it raises, as the decoder of the pipe does on bytes that are no
    text (\<open>ReadError\<close>); or it never returns (\<open>ReadHangs\<close>), as when the process waits
    for room in the pipe of its standard error, which nobody reads while the loop
    runs. A line is not empty: \<^verbatim>\<open>readline\<close> returns \<^verbatim>\<open>""\<close> at the end of the stream only.
    A process that never stops writing is a process cut by \<open>ReadHangs\<close> after any
    number of lines.
  \<^item> \<open>polls_alive\<close>: how many \<^verbatim>\<open>process.poll()\<close> calls still find the process running
    once its output is used up; \<open>None\<close> when it never exits.
  \<^item> \<open>returncode\<close>: its exit code.
  \<^item> \<open>comm\<close>: what \<^verbatim>\<open>process.communicate()\<close> does when it is called: it returns the
    output not yet read and all of the standard error, both decoded; or it raises, as
    on bytes that are no text; or it never returns.
  \<^item> \<open>effect\<close>: what the process has done to the file system by the time the launcher
    is through with it.
\<close>

datatype read_event =
    Line unicode
  | ReadError error
  | ReadHangs

datatype comm_event =
    CommReturns unicode unicode
  | CommRaises error
  | CommHangs

record proc =
  pending :: "read_event list"
  polls_alive :: "nat option"
  returncode :: int
  comm :: comm_event
  effect :: "filesystem \<Rightarrow> filesystem"

text \<open>
  What the kernel does with a process and with its own output, in the order in which
  it happens: \<^verbatim>\<open>readline\<close> has returned a text (\<^verbatim>\<open>""\<close> at the end of the stream) or has
  raised, \<^verbatim>\<open>poll\<close> has found the process exited or not, \<^verbatim>\<open>communicate\<close> has returned
  two texts or has raised, \<^verbatim>\<open>print\<close> has shown a text.
\<close>

datatype io_event =
    Got unicode
  | GotError error
  | Polled bool
  | Communicated unicode unicode
  | CommunicateError error
  | Printed unicode

text \<open>
  The state of numpy's generator: its seed and how many values have been drawn.
  \<^verbatim>\<open>np.random.RandomState(seed)\<close> is a new generator that has drawn nothing.
\<close>

datatype random_state = MT19937 int nat

definition RandomState :: "int \<Rightarrow> random_state" where
  "RandomState seed = MT19937 seed 0"

text \<open>
  The parameters: \<open>spawn\<close> is the process that the operating system starts for a
  command line, an environment and a file system (\<open>None\<close> when the executable cannot
  be started); \<open>synth\<close> gives the voxels that \<^verbatim>\<open>monai.data.create_test_image_3d\<close> draws
  for a height, width, depth, \<^verbatim>\<open>rad_max\<close>, \<^verbatim>\<open>num_seg_classes\<close> and generator (the
  image and its segmentation), and the generator afterwards; \<open>col_norm\<close> is the
  Euclidean length of a vector as numpy computes it in floating point.
\<close>

record platform =
  spawn :: "string list \<Rightarrow> (string \<times> string) list \<Rightarrow> filesystem \<Rightarrow> proc option"
  synth :: "nat \<Rightarrow> nat \<Rightarrow> nat \<Rightarrow> nat \<Rightarrow> nat \<Rightarrow> random_state
            \<Rightarrow> (real list \<times> real list) \<times> random_state"
  col_norm :: "real list \<Rightarrow> real"

subsection \<open>The state and the sequencing of statements\<close>

text \<open>
  Mutable Python objects live in a store, so that two names for one object are told
  from two equal objects: a variable holds the address of a document, and an address
  is an index into the list of documents. The containers inside a document belong to
  it: \<^verbatim>\<open>json.load\<close> builds trees, and the notebook never stores a container into
  another one, so no container is shared between two documents.
\<close>

type_synonym ref = nat

record world =
  fs :: filesystem
  fs_log :: "fs_event list"
  heap :: "json list"
  environ :: "(string \<times> string) list"
  timeline :: "io_event list"
  popen_calls :: "(string list \<times> (string \<times> string) list) list"
  shell_calls :: "string list"
  env_config :: ref
  model_config :: ref
  model_def :: ref
  env_config_out :: ref
  model_config_out :: ref
  model_def_out :: ref

text \<open>
  A statement returns a value, or it stops: it raises an exception, or it never
  returns. In each case it leaves a state, the one reached when it stops. Raising and
  not returning both end what follows; not returning is no exception, so that no
  \<^verbatim>\<open>except\<close> clause catches it and no \<^verbatim>\<open>finally\<close> block runs after it.
\<close>

datatype stop = Raises error | Hangs

type_synonym 'a py = "world \<Rightarrow> (stop + 'a) \<times> world"

definition py_return :: "'a \<Rightarrow> 'a py" where
  "py_return x = (\<lambda>w. (Inr x, w))"

definition py_raise :: "error \<Rightarrow> 'a py" where
  "py_raise e = (\<lambda>w. (Inl (Raises e), w))"

definition py_bind :: "'a py \<Rightarrow> ('a \<Rightarrow> 'b py) \<Rightarrow> 'b py" where
  "py_bind m f = (\<lambda>w. case m w of (Inl e, w') \<Rightarrow> (Inl e, w') | (Inr x, w') \<Rightarrow> f x w')"

text \<open>\<^verbatim>\<open>print(s)\<close> of a text, which shows it and returns.\<close>

definition py_print :: "unicode \<Rightarrow> unit py" where
  "py_print s = (\<lambda>w. (Inr (), w\<lparr>timeline := timeline w @ [Printed s]\<rparr>))"

text \<open>A \<^verbatim>\<open>for\<close> loop over a list, and a list of cells run one after the other.\<close>

fun py_for :: "'a list \<Rightarrow> ('a \<Rightarrow> unit py) \<Rightarrow> unit py" where
  "py_for [] body = py_return ()"
| "py_for (x # xs) body = py_bind (body x) (\<lambda>_. py_for xs body)"

fun py_seq :: "unit py list \<Rightarrow> unit py" where
  "py_seq [] = py_return ()"
| "py_seq (c # cs) = py_bind c (\<lambda>_. py_seq cs)"

text \<open>A Python function that raises or returns without touching the state.\<close>

definition py_lift :: "error + 'a \<Rightarrow> 'a py" where
  "py_lift r = (case r of Inl e \<Rightarrow> py_raise e | Inr x \<Rightarrow> py_return x)"

text \<open>
  Reading a variable of the kernel, and the assignment \<^verbatim>\<open>x = e\<close> to one (whose
  value is the address that \<open>e\<close> returns).
\<close>

definition py_var :: "(world \<Rightarrow> 'a) \<Rightarrow> 'a py" where
  "py_var x = (\<lambda>w. (Inr (x w), w))"

definition assign :: "((ref \<Rightarrow> ref) \<Rightarrow> world \<Rightarrow> world) \<Rightarrow> ref py \<Rightarrow> ref py" where
  "assign x_update e = py_bind e (\<lambda>r. (\<lambda>w. (Inr r, x_update (\<lambda>_. r) w)))"

subsection \<open>Dictionaries and the store\<close>

text \<open>\<^verbatim>\<open>obj[key]\<close> with a string key.\<close>

definition json_getitem :: "json \<Rightarrow> string \<Rightarrow> error + json" where
  "json_getitem obj key =
     (case obj of
        JObj kvs \<Rightarrow> (case map_of kvs key of Some v \<Rightarrow> Inr v | None \<Rightarrow> Inl (KeyError key))
      | JArr xs \<Rightarrow> Inl (TypeError ''list indices must be integers or slices, not str'')
      | JStr s \<Rightarrow> Inl (TypeError ''string indices must be integers'')
      | _ \<Rightarrow> Inl (TypeError ''object is not subscriptable''))"

text \<open>
  \<^verbatim>\<open>obj[key] = v\<close> with a string key: a key that is there keeps its place, a new one
  goes last.
\<close>

definition json_setitem :: "json \<Rightarrow> string \<Rightarrow> json \<Rightarrow> error + json" where
  "json_setitem obj key v =
     (case obj of
        JObj kvs \<Rightarrow> Inr (JObj (AList.update key v kvs))
      | JArr xs \<Rightarrow> Inl (TypeError ''list indices must be integers or slices, not str'')
      | _ \<Rightarrow> Inl (TypeError ''object does not support item assignment''))"

text \<open>What \<^verbatim>\<open>for d in obj\<close> runs over.\<close>

definition json_iter :: "json \<Rightarrow> error + json list" where
  "json_iter obj =
     (case obj of
        JArr xs \<Rightarrow> Inr xs
      | JObj kvs \<Rightarrow> Inr (map (JStr \<circ> fst) kvs)
      | JStr s \<Rightarrow> Inr (map (\<lambda>c. JStr [c]) s)
      | _ \<Rightarrow> Inl (TypeError ''object is not iterable''))"

text \<open>\<^verbatim>\<open>os.fspath(p)\<close>, which every \<^verbatim>\<open>os\<close> function applies to a path it is given.\<close>

definition os_fspath :: "json \<Rightarrow> error + string" where
  "os_fspath p =
     (case p of
        JStr s \<Rightarrow> Inr s
      | _ \<Rightarrow> Inl (TypeError ''expected str, bytes or os.PathLike object''))"

text \<open>A new object in the store, and the object at an address.\<close>

definition py_new :: "json \<Rightarrow> ref py" where
  "py_new obj = (\<lambda>w. (Inr (length (heap w)), w\<lparr>heap := heap w @ [obj]\<rparr>))"

definition py_deref :: "ref \<Rightarrow> json py" where
  "py_deref r = (\<lambda>w.
     if r < length (heap w) then (Inr (heap w ! r), w)
     else (Inl (Raises (NameError ''name is not defined'')), w))"

text \<open>\<^verbatim>\<open>copy.deepcopy(x)\<close>: a new object equal to the old one, sharing nothing with it.\<close>

definition deepcopy :: "ref \<Rightarrow> ref py" where
  "deepcopy r = py_bind (py_deref r) py_new"

text \<open>\<^verbatim>\<open>x[key]\<close>, \<^verbatim>\<open>x[key] = v\<close> and \<^verbatim>\<open>x[key1][key2] = v\<close> on the object a variable names.\<close>

definition py_getitem :: "ref \<Rightarrow> string \<Rightarrow> json py" where
  "py_getitem r key = py_bind (py_deref r) (\<lambda>obj. py_lift (json_getitem obj key))"

definition py_store :: "ref \<Rightarrow> json \<Rightarrow> unit py" where
  "py_store r obj = (\<lambda>w. (Inr (), w\<lparr>heap := (heap w)[r := obj]\<rparr>))"

definition py_setitem :: "ref \<Rightarrow> string \<Rightarrow> json \<Rightarrow> unit py" where
  "py_setitem r key v =
     py_bind (py_deref r) (\<lambda>obj.
     py_bind (py_lift (json_setitem obj key v)) (\<lambda>obj'.
     py_store r obj'))"

definition py_setitem_in :: "ref \<Rightarrow> string \<Rightarrow> string \<Rightarrow> json \<Rightarrow> unit py" where
  "py_setitem_in r key1 key2 v =
     py_bind (py_deref r) (\<lambda>obj.
     py_bind (py_lift (json_getitem obj key1)) (\<lambda>inner.
     py_bind (py_lift (json_setitem inner key2 v)) (\<lambda>inner'.
     py_bind (py_lift (json_setitem obj key1 inner')) (\<lambda>obj'.
     py_store r obj'))))"

subsection \<open>The file system\<close>

text \<open>\<^verbatim>\<open>os.path.isdir(p)\<close>.\<close>

definition os_path_isdir :: "string \<Rightarrow> bool py" where
  "os_path_isdir p = (\<lambda>w. (Inr (map_of (fs w) p = Some Dir), w))"

text \<open>
  \<^verbatim>\<open>os.makedirs(p, exist_ok=b)\<close>. The directories above \<open>p\<close> are not entries of their
  own in this model.
\<close>

definition os_makedirs :: "string \<Rightarrow> bool \<Rightarrow> unit py" where
  "os_makedirs p exist_ok = (\<lambda>w.
     case map_of (fs w) p of
       None \<Rightarrow> (Inr (), w\<lparr>fs := AList.update p Dir (fs w), fs_log := fs_log w @ [MadeDir p]\<rparr>)
     | Some Dir \<Rightarrow> if exist_ok then (Inr (), w) else (Inl (Raises (FileExistsError p)), w)
     | Some _ \<Rightarrow> (Inl (Raises (FileExistsError p)), w))"

text \<open>
  \<^verbatim>\<open>with open(p, "w") as f:\<close> followed by one call that writes all of the content.
\<close>

definition write_file :: "string \<Rightarrow> entry \<Rightarrow> unit py" where
  "write_file p content = (\<lambda>w.
     case map_of (fs w) p of
       Some Dir \<Rightarrow> (Inl (Raises (IsADirectoryError p)), w)
     | _ \<Rightarrow> (Inr (), w\<lparr>fs := AList.update p content (fs w),
                        fs_log := fs_log w @ [Wrote p content]\<rparr>))"

text \<open>
  \<^verbatim>\<open>json.dump(obj, f, sort_keys=b, indent=4)\<close> into the file at \<open>path\<close>. The file
  is modelled by the document it holds, so the indentation leaves no trace;
  \<^verbatim>\<open>sort_keys=True\<close> sorts the keys of every object of the document.
\<close>

fun sort_keys_json :: "json \<Rightarrow> json" where
  "sort_keys_json (JArr xs) = JArr (map sort_keys_json xs)"
| "sort_keys_json (JObj kvs) = JObj (sort_key fst (map (\<lambda>(k, v). (k, sort_keys_json v)) kvs))"
| "sort_keys_json j = j"

definition json_dump :: "json \<Rightarrow> string \<Rightarrow> bool \<Rightarrow> unit py" where
  "json_dump obj path sort_keys =
     write_file path (JsonFile (if sort_keys then sort_keys_json obj else obj))"

text \<open>\<^verbatim>\<open>with open(p, "r") as f: x = json.load(f)\<close>: the document becomes a new object.\<close>

definition json_load :: "string \<Rightarrow> ref py" where
  "json_load p = (\<lambda>w.
     case map_of (fs w) p of
       None \<Rightarrow> (Inl (Raises (FileNotFoundError p)), w)
     | Some Dir \<Rightarrow> (Inl (Raises (IsADirectoryError p)), w)
     | Some (JsonFile doc) \<Rightarrow> py_new doc w
     | Some _ \<Rightarrow> (Inl (Raises (JSONDecodeError p)), w))"

text \<open>\<^verbatim>\<open>nib.load(p)\<close> and \<^verbatim>\<open>nib.save(img, p)\<close>.\<close>

definition nib_load :: "string \<Rightarrow> nifti py" where
  "nib_load p = (\<lambda>w.
     case map_of (fs w) p of
       None \<Rightarrow> (Inl (Raises (FileNotFoundError p)), w)
     | Some (NiftiFile img) \<Rightarrow> (Inr img, w)
     | Some _ \<Rightarrow> (Inl (Raises (ImageFileError p)), w))"

definition nib_save :: "nifti \<Rightarrow> string \<Rightarrow> unit py" where
  "nib_save img p = write_file p (NiftiFile img)"

text \<open>
  \<^verbatim>\<open>os.walk(top)\<close>: one triple (directory, names of its subdirectories, names of its
  files) for \<open>top\<close> and for every directory below it; nothing when \<open>top\<close> is not a
  directory. \<open>dir_prefix d\<close> is what the path of everything in \<open>d\<close> starts with, and a
  name in \<open>d\<close> is what follows it in a path, when that has no separator.
\<close>

definition dir_prefix :: "string \<Rightarrow> string" where
  "dir_prefix d = os_path_join d []"

definition child_name :: "string \<Rightarrow> string \<Rightarrow> string option" where
  "child_name d k =
     (let pre = dir_prefix d; n = drop (length pre) k in
      if d \<noteq> [] \<and> take (length pre) k = pre \<and> n \<noteq> [] \<and> CHR ''/'' \<notin> set n then Some n
      else None)"

definition scandir :: "string \<Rightarrow> filesystem \<Rightarrow> (string \<times> entry) list" where
  "scandir d f =
     concat (map (\<lambda>k. case (child_name d k, map_of f k) of
                         (Some n, Some e) \<Rightarrow> [(n, e)]
                       | _ \<Rightarrow> [])
                 (remdups (map fst f)))"

definition below :: "string \<Rightarrow> string \<Rightarrow> bool" where
  "below top_dir k =
     (let pre = dir_prefix top_dir in
      top_dir \<noteq> [] \<and> take (length pre) k = pre \<and> length pre < length k)"

definition os_walk :: "string \<Rightarrow> filesystem \<Rightarrow> (string \<times> string list \<times> string list) list" where
  "os_walk top_dir f =
     (if map_of f top_dir = Some Dir then
        map (\<lambda>root. (root,
                     map fst (filter (\<lambda>(n, e). e = Dir) (scandir root f)),
                     map fst (filter (\<lambda>(n, e). e \<noteq> Dir) (scandir root f))))
            (top_dir # filter (\<lambda>k. map_of f k = Some Dir \<and> below top_dir k)
                                (remdups (map fst f)))
      else [])"

subsection \<open>Images\<close>

text \<open>
  \<^verbatim>\<open>monai.data.create_test_image_3d(height, width, depth, rad_max=..., num_seg_classes=...,
  random_state=...)\<close> returns an image and its segmentation, both of shape
  (height, width, depth); the voxels are the platform's.
\<close>

definition create_test_image_3d ::
  "platform \<Rightarrow> nat \<Rightarrow> nat \<Rightarrow> nat \<Rightarrow> nat \<Rightarrow> nat \<Rightarrow> random_state \<Rightarrow> ndarray \<times> ndarray" where
  "create_test_image_3d P height width depth rad_max num_seg_classes random_state =
     (case synth P height width depth rad_max num_seg_classes random_state of
        ((voxels, labels), _) \<Rightarrow>
          (\<lparr>arr_shape = [height, width, depth], arr_data = voxels\<rparr>,
           \<lparr>arr_shape = [height, width, depth], arr_data = labels\<rparr>))"

text \<open>\<^verbatim>\<open>np.eye(n)\<close>.\<close>

definition np_eye :: "nat \<Rightarrow> real list list" where
  "np_eye n = map (\<lambda>i. map (\<lambda>j. if i = j then 1 else 0) [0..<n]) [0..<n]"

text \<open>
  \<^verbatim>\<open>nib.Nifti1Image(data, affine)\<close>: the image has the shape of the data, and its header
  takes the voxel sizes from the affine (the lengths of its first three columns).
\<close>

definition voxel_sizes :: "platform \<Rightarrow> real list list \<Rightarrow> real list" where
  "voxel_sizes P affine = map (\<lambda>j. col_norm P (map (\<lambda>i. affine ! i ! j) [0..<3])) [0..<3]"

definition Nifti1Image :: "platform \<Rightarrow> ndarray \<Rightarrow> real list list \<Rightarrow> nifti" where
  "Nifti1Image P dataobj affine =
     \<lparr>img_shape = arr_shape dataobj, img_zooms = voxel_sizes P affine,
      img_affine = affine, img_data = arr_data dataobj\<rparr>"

subsection \<open>The cells before the launcher\<close>

text \<open>
  Cell 3 is a shell escape, \<^verbatim>\<open>!python -c "import monai" || pip install -q "monai-weekly[pillow, tqdm]"\<close>:
  the command line is recorded. Cell 5 imports the modules, prints MONAI's
  configuration and sets the logger up; the text it prints and the messages of the
  logger are not part of the state.
\<close>

definition dq :: "string \<Rightarrow> string" where
  "dq s = CHR 0x22 # s @ [CHR 0x22]"

definition cell3 :: "unit py" where
  "cell3 = (\<lambda>w. (Inr (), w\<lparr>shell_calls := shell_calls w @
     [''python -c '' @ dq ''import monai'' @ '' || pip install -q '' @
      dq ''monai-weekly[pillow, tqdm]'']\<rparr>))"

definition cell5 :: "unit py" where
  "cell5 = py_return ()"

text \<open>
  Cell 7:
  \<^verbatim>\<open>
  sim_datalist = {"training": [{"image": "tr_image_001.nii.gz"}, {"image": "tr_image_002.nii.gz"}]}
  sim_dim = (224, 224, 96)
  \<close>
  Both are assigned once and never changed: they are constants here, as are the paths
  that cells 9 and 11 compute from constants.
\<close>

definition sim_datalist :: json where
  "sim_datalist =
     JObj [(''training'', JArr [JObj [(''image'', JStr ''tr_image_001.nii.gz'')],
                                JObj [(''image'', JStr ''tr_image_002.nii.gz'')]])]"

definition sim_dim :: "nat \<times> nat \<times> nat" where
  "sim_dim = (224, 224, 96)"

definition cell7 :: "unit py" where
  "cell7 = py_return ()"

text \<open>
  Cell 9:
  \<^verbatim>\<open>
  work_dir = "./temp_work_dir"
  if not os.path.isdir(work_dir):
      os.makedirs(work_dir)
  dataroot_dir = os.path.join(work_dir, "sim_dataroot")
  if not os.path.isdir(dataroot_dir):
      os.makedirs(dataroot_dir)
  datalist_file = os.path.join(work_dir, "sim_datalist.json")
  with open(datalist_file, "w") as f:
      json.dump(sim_datalist, f)
  for d in sim_datalist["training"]:
      im, _ = create_test_image_3d(
          sim_dim[0], sim_dim[1], sim_dim[2], rad_max=10, num_seg_classes=1,
          random_state=np.random.RandomState(42))
      image_fpath = os.path.join(dataroot_dir, d["image"])
      nib.save(nib.Nifti1Image(im, affine=np.eye(4)), image_fpath)
  \<close>
\<close>

definition work_dir :: string where
  "work_dir = ''./temp_work_dir''"

definition dataroot_dir :: string where
  "dataroot_dir = os_path_join work_dir ''sim_dataroot''"

definition datalist_file :: string where
  "datalist_file = os_path_join work_dir ''sim_datalist.json''"

definition cell9 :: "platform \<Rightarrow> unit py" where
  "cell9 P =
     py_bind (os_path_isdir work_dir) (\<lambda>isdir.
     py_bind (if \<not> isdir then os_makedirs work_dir False else py_return ()) (\<lambda>_.
     py_bind (os_path_isdir dataroot_dir) (\<lambda>isdir.
     py_bind (if \<not> isdir then os_makedirs dataroot_dir False else py_return ()) (\<lambda>_.
     py_bind (json_dump sim_datalist datalist_file False) (\<lambda>_.
     py_bind (py_lift (json_getitem sim_datalist ''training'')) (\<lambda>training.
     py_bind (py_lift (json_iter training)) (\<lambda>ds.
     py_for ds (\<lambda>d.
       case sim_dim of (height, width, depth) \<Rightarrow>
       case create_test_image_3d P height width depth 10 1 (RandomState 42) of (im, seg) \<Rightarrow>
       py_bind (py_lift (json_getitem d ''image'')) (\<lambda>name.
       py_bind (py_lift (os_fspath name)) (\<lambda>name.
       let image_fpath = os_path_join dataroot_dir name in
       nib_save (Nifti1Image P im (np_eye 4)) image_fpath))))))))))"

text \<open>
  Cell 11:
  \<^verbatim>\<open>
  env_config_path = "./configs/environment_maisi_diff_model.json"
  model_config_path = "./configs/config_maisi_diff_model.json"
  model_def_path = "./configs/config_maisi.json"
  with open(env_config_path, "r") as f:
      env_config = json.load(f)
  with open(model_config_path, "r") as f:
      model_config = json.load(f)
  with open(model_def_path, "r") as f:
      model_def = json.load(f)
  env_config_out = copy.deepcopy(env_config)
  model_config_out = copy.deepcopy(model_config)
  model_def_out = copy.deepcopy(model_def)
  env_config_out["data_base_dir"] = dataroot_dir
  env_config_out["embedding_base_dir"] = os.path.join(work_dir, env_config_out["embedding_base_dir"])
  env_config_out["json_data_list"] = datalist_file
  env_config_out["model_dir"] = os.path.join(work_dir, env_config_out["model_dir"])
  env_config_out["output_dir"] = os.path.join(work_dir, env_config_out["output_dir"])
  env_config_out["trained_autoencoder_path"] = None
  os.makedirs(env_config_out["embedding_base_dir"], exist_ok=True)
  os.makedirs(env_config_out["model_dir"], exist_ok=True)
  os.makedirs(env_config_out["output_dir"], exist_ok=True)
  env_config_filepath = os.path.join(work_dir, "environment_maisi_diff_model.json")
  with open(env_config_filepath, "w") as f:
      json.dump(env_config_out, f, sort_keys=True, indent=4)
  max_epochs = 2
  model_config_out["diffusion_unet_train"]["n_epochs"] = max_epochs
  model_config_filepath = os.path.join(work_dir, "config_maisi_diff_model.json")
  with open(model_config_filepath, "w") as f:
      json.dump(model_config_out, f, sort_keys=True, indent=4)
  model_def_out["autoencoder_def"]["num_splits"] = 4
  model_def_filepath = os.path.join(work_dir, "config_maisi.json")
  with open(model_def_filepath, "w") as f:
      json.dump(model_def_out, f, sort_keys=True, indent=4)
  num_gpus = 1
  \<close>
\<close>

definition env_config_path :: string where
  "env_config_path = ''./configs/environment_maisi_diff_model.json''"

definition model_config_path :: string where
  "model_config_path = ''./configs/config_maisi_diff_model.json''"

definition model_def_path :: string where
  "model_def_path = ''./configs/config_maisi.json''"

definition env_config_filepath :: string where
  "env_config_filepath = os_path_join work_dir ''environment_maisi_diff_model.json''"

definition max_epochs :: int where
  "max_epochs = 2"

definition model_config_filepath :: string where
  "model_config_filepath = os_path_join work_dir ''config_maisi_diff_model.json''"

definition model_def_filepath :: string where
  "model_def_filepath = os_path_join work_dir ''config_maisi.json''"

definition num_gpus :: int where
  "num_gpus = 1"

text \<open>\<^verbatim>\<open>x[key] = os.path.join(work_dir, x[key])\<close> and \<^verbatim>\<open>os.makedirs(x[key], exist_ok=True)\<close>.\<close>

definition prepend_work_dir :: "ref \<Rightarrow> string \<Rightarrow> unit py" where
  "prepend_work_dir x key =
     py_bind (py_getitem x key) (\<lambda>v.
     py_bind (py_lift (os_fspath v)) (\<lambda>v.
     py_setitem x key (JStr (os_path_join work_dir v))))"

definition makedirs_of :: "ref \<Rightarrow> string \<Rightarrow> unit py" where
  "makedirs_of x key =
     py_bind (py_getitem x key) (\<lambda>v.
     py_bind (py_lift (os_fspath v)) (\<lambda>v.
     os_makedirs v True))"

definition cell11 :: "unit py" where
  "cell11 =
     py_bind (assign env_config_update (json_load env_config_path)) (\<lambda>env_config.
     py_bind (assign model_config_update (json_load model_config_path)) (\<lambda>model_config.
     py_bind (assign model_def_update (json_load model_def_path)) (\<lambda>model_def.
     py_bind (assign env_config_out_update (deepcopy env_config)) (\<lambda>env_config_out.
     py_bind (assign model_config_out_update (deepcopy model_config)) (\<lambda>model_config_out.
     py_bind (assign model_def_out_update (deepcopy model_def)) (\<lambda>model_def_out.
     py_bind (py_setitem env_config_out ''data_base_dir'' (JStr dataroot_dir)) (\<lambda>_.
     py_bind (prepend_work_dir env_config_out ''embedding_base_dir'') (\<lambda>_.
     py_bind (py_setitem env_config_out ''json_data_list'' (JStr datalist_file)) (\<lambda>_.
     py_bind (prepend_work_dir env_config_out ''model_dir'') (\<lambda>_.
     py_bind (prepend_work_dir env_config_out ''output_dir'') (\<lambda>_.
     py_bind (py_setitem env_config_out ''trained_autoencoder_path'' JNull) (\<lambda>_.
     py_bind (makedirs_of env_config_out ''embedding_base_dir'') (\<lambda>_.
     py_bind (makedirs_of env_config_out ''model_dir'') (\<lambda>_.
     py_bind (makedirs_of env_config_out ''output_dir'') (\<lambda>_.
     py_bind (py_deref env_config_out) (\<lambda>obj.
     py_bind (json_dump obj env_config_filepath True) (\<lambda>_.
     py_bind (py_setitem_in model_config_out ''diffusion_unet_train'' ''n_epochs''
                (JInt max_epochs)) (\<lambda>_.
     py_bind (py_deref model_config_out) (\<lambda>obj.
     py_bind (json_dump obj model_config_filepath True) (\<lambda>_.
     py_bind (py_setitem_in model_def_out ''autoencoder_def'' ''num_splits'' (JInt 4)) (\<lambda>_.
     py_bind (py_deref model_def_out) (\<lambda>obj.
     json_dump obj model_def_filepath True))))))))))))))))))))))"

subsection \<open>The process launcher (cell 12)\<close>

text \<open>\<^verbatim>\<open>os.environ.copy()\<close>.\<close>

definition os_environ_copy :: "(string \<times> string) list py" where
  "os_environ_copy = (\<lambda>w. (Inr (environ w), w))"

text \<open>
  \<^verbatim>\<open>subprocess.Popen(cmd, stdout=PIPE, stderr=PIPE, text=True, env=env)\<close>: the call is
  recorded; it raises when the executable cannot be started.
\<close>

definition Popen :: "platform \<Rightarrow> string list \<Rightarrow> (string \<times> string) list \<Rightarrow> proc py" where
  "Popen P cmd env = (\<lambda>w.
     let w' = w\<lparr>popen_calls := popen_calls w @ [(cmd, env)]\<rparr> in
     case spawn P cmd env (fs w) of
       None \<Rightarrow> (Inl (Raises (FileNotFoundError (concat (take 1 cmd)))), w')
     | Some p \<Rightarrow> (Inr p, w'))"

text \<open>
  \<^verbatim>\<open>process.stdout.readline()\<close>: the next line, or the empty text at the end of the
  stream; the value is the text and the process as the call leaves it. When the call
  never returns, what the process has done to the file system is all that is left.
\<close>

definition readline :: "proc \<Rightarrow> (unicode \<times> proc) py" where
  "readline p = (\<lambda>w.
     case pending p of
       [] \<Rightarrow> (Inr ([], p), w\<lparr>timeline := timeline w @ [Got []]\<rparr>)
     | Line s # rest \<Rightarrow> (Inr (s, p\<lparr>pending := rest\<rparr>), w\<lparr>timeline := timeline w @ [Got s]\<rparr>)
     | ReadError e # rest \<Rightarrow> (Inl (Raises e), w\<lparr>timeline := timeline w @ [GotError e]\<rparr>)
     | ReadHangs # rest \<Rightarrow> (Inl Hangs, w\<lparr>fs := effect p (fs w)\<rparr>))"

text \<open>\<^verbatim>\<open>process.poll()\<close>: \<open>None\<close> while the process runs, its exit code afterwards.\<close>

definition poll :: "proc \<Rightarrow> (int option \<times> proc) py" where
  "poll p = (\<lambda>w.
     case polls_alive p of
       None \<Rightarrow> (Inr (None, p), w\<lparr>timeline := timeline w @ [Polled False]\<rparr>)
     | Some 0 \<Rightarrow> (Inr (Some (returncode p), p), w\<lparr>timeline := timeline w @ [Polled True]\<rparr>)
     | Some (Suc k) \<Rightarrow>
         (Inr (None, p\<lparr>polls_alive := Some k\<rparr>), w\<lparr>timeline := timeline w @ [Polled False]\<rparr>))"

text \<open>
  The body of the \<^verbatim>\<open>try\<close>:
  \<^verbatim>\<open>
  while True:
      output = process.stdout.readline()
      if output == "" and process.poll() is not None:
          break
      if output:
          print(output.strip())
  \<close>
  At the end of the stream of a process that never exits, \<^verbatim>\<open>readline\<close> and \<^verbatim>\<open>poll\<close>
  answer the same for ever and the loop never ends: one round of it is recorded.
\<close>

function stream_loop :: "proc \<Rightarrow> unit py" where
  "stream_loop p w =
     (case readline p w of
        (Inl s, w1) \<Rightarrow> (Inl s, w1)
      | (Inr (output, p1), w1) \<Rightarrow>
          (if output = [] then
             (case poll p1 w1 of
                (Inl s, w2) \<Rightarrow> (Inl s, w2)
              | (Inr (Some rc, p2), w2) \<Rightarrow> (Inr (), w2)
              | (Inr (None, p2), w2) \<Rightarrow>
                  (if pending p2 = [] \<and> polls_alive p2 = None
                   then (Inl Hangs, w2\<lparr>fs := effect p2 (fs w2)\<rparr>)
                   else stream_loop p2 w2))
           else stream_loop p1 (snd (py_print (strip output) w1))))"
  by pat_completeness auto
termination
  by (relation "measure (\<lambda>(p, w). length (pending p) +
        (case polls_alive p of None \<Rightarrow> 0 | Some k \<Rightarrow> k))")
    (auto simp: readline_def poll_def
      split: list.splits read_event.splits if_splits option.splits nat.splits)

text \<open>
  \<^verbatim>\<open>process.communicate()\<close>: waits for the process to exit and returns the output not
  yet read and all of the standard error, or raises. What the process did to the file
  system is there by then.
\<close>

definition communicate :: "proc \<Rightarrow> (unicode \<times> unicode) py" where
  "communicate p = (\<lambda>w.
     let w' = w\<lparr>fs := effect p (fs w)\<rparr> in
     case comm p of
       CommReturns out err \<Rightarrow>
         (Inr (out, err), w'\<lparr>timeline := timeline w' @ [Communicated out err]\<rparr>)
     | CommRaises e \<Rightarrow> (Inl (Raises e), w'\<lparr>timeline := timeline w' @ [CommunicateError e]\<rparr>)
     | CommHangs \<Rightarrow> (Inl Hangs, w'))"

text \<open>
  \<^verbatim>\<open>try: body\<close> \<^verbatim>\<open>except Exception as e: handler\<close> \<^verbatim>\<open>finally: final\<close>. The handler
  runs when the body raises (every exception of this model is an \<^verbatim>\<open>Exception\<close>); the
  final block runs after the body or the handler has returned or raised, and an
  exception of the final block replaces the one that was under way.
\<close>

definition py_try :: "unit py \<Rightarrow> (error \<Rightarrow> unit py) \<Rightarrow> unit py \<Rightarrow> unit py" where
  "py_try body handler final = (\<lambda>w.
     case (case body w of
             (Inl (Raises e), w1) \<Rightarrow> handler e w1
           | (r, w1) \<Rightarrow> (r, w1)) of
       (Inl Hangs, w2) \<Rightarrow> (Inl Hangs, w2)
     | (r, w2) \<Rightarrow>
         (case final w2 of
            (Inl s, w3) \<Rightarrow> (Inl s, w3)
          | (Inr u, w3) \<Rightarrow> (r, w3)))"

text \<open>
  \<^verbatim>\<open>
  def run_torchrun(module, module_args, num_gpus=1):
      num_nodes = 1
      torchrun_command = ["torchrun", "--nproc_per_node", str(num_gpus),
                          "--nnodes", str(num_nodes), "-m", module] + module_args
      env = os.environ.copy()
      env["OMP_NUM_THREADS"] = "1"
      process = subprocess.Popen(torchrun_command, stdout=subprocess.PIPE,
                                 stderr=subprocess.PIPE, text=True, env=env)
      try:
          while True: ...
      except Exception as e:
          print(f"An error occurred: {e}")
      finally:
          stdout, stderr = process.communicate()
          print(stdout)
          if stderr:
              print(stderr)
      return
  \<close>
\<close>

definition run_torchrun :: "platform \<Rightarrow> string \<Rightarrow> string list \<Rightarrow> int \<Rightarrow> unit py" where
  "run_torchrun P module_name module_args num_gpus' =
     (let num_nodes = 1;
          torchrun_command =
            [''torchrun'', ''--nproc_per_node'', str_int num_gpus',
             ''--nnodes'', str_int num_nodes, ''-m'', module_name] @ module_args
      in
      py_bind os_environ_copy (\<lambda>env0.
      let env = AList.update ''OMP_NUM_THREADS'' ''1'' env0 in
      py_bind (Popen P torchrun_command env) (\<lambda>process.
      py_bind (py_try (stream_loop process)
                 (\<lambda>e. py_print (ustr ''An error occurred: '' @ ustr (str_error e)))
                 (py_bind (communicate process) (\<lambda>(stdout, stderr).
                  py_bind (py_print stdout) (\<lambda>_.
                  if stderr \<noteq> [] then py_print stderr else py_return ())))) (\<lambda>_.
      py_return ()))))"

definition cell12 :: "unit py" where
  "cell12 = py_return ()"

subsection \<open>The three stages and the sidecar files\<close>

text \<open>
  Cells 14, 18 and 20 differ in the module only:
  \<^verbatim>\<open>
  module = "scripts.diff_model_create_training_data"
  module_args = ["--env_config", env_config_filepath, "--model_config", model_config_filepath,
                 "--model_def", model_def_filepath]
  run_torchrun(module, module_args, num_gpus=num_gpus)
  \<close>
\<close>

definition cell14 :: "platform \<Rightarrow> unit py" where
  "cell14 P =
     (let module_name = ''scripts.diff_model_create_training_data'';
          module_args =
            [''--env_config'', env_config_filepath,
             ''--model_config'', model_config_filepath,
             ''--model_def'', model_def_filepath]
      in run_torchrun P module_name module_args num_gpus)"

definition cell18 :: "platform \<Rightarrow> unit py" where
  "cell18 P =
     (let module_name = ''scripts.diff_model_train'';
          module_args =
            [''--env_config'', env_config_filepath,
             ''--model_config'', model_config_filepath,
             ''--model_def'', model_def_filepath]
      in run_torchrun P module_name module_args num_gpus)"

definition cell20 :: "platform \<Rightarrow> unit py" where
  "cell20 P =
     (let module_name = ''scripts.diff_model_infer'';
          module_args =
            [''--env_config'', env_config_filepath,
             ''--model_config'', model_config_filepath,
             ''--model_def'', model_def_filepath]
      in run_torchrun P module_name module_args num_gpus)"

text \<open>
  Cell 16:
  \<^verbatim>\<open>
  def list_gz_files(folder_path):
      gz_files = []
      for root, _, files in os.walk(folder_path):
          for file in files:
              if file.endswith(".gz"):
                  gz_files.append(os.path.join(root, file))
      return gz_files

  def create_json_files(gz_files):
      for gz_file in gz_files:
          img = nib.load(gz_file)
          dimensions = img.shape
          dimensions = dimensions[:3]
          spacing = img.header.get_zooms()[:3]
          spacing = spacing[:3]
          spacing = [float(_item) for _item in spacing]
          data = {"dim": dimensions, "spacing": spacing,
                  "top_region_index": [0, 1, 0, 0], "bottom_region_index": [0, 0, 1, 0]}
          json_filename = gz_file + ".json"
          with open(json_filename, "w") as json_file:
              json.dump(data, json_file, indent=4)

  folder_path = env_config_out["embedding_base_dir"]
  gz_files = list_gz_files(folder_path)
  create_json_files(gz_files)
  \<close>
  \<^verbatim>\<open>json.dump\<close> writes the tuple \<^verbatim>\<open>dimensions\<close> as an array.
\<close>

definition list_gz_files :: "string \<Rightarrow> string list py" where
  "list_gz_files folder_path = (\<lambda>w.
     (Inr (concat (map (\<lambda>(root, dirs, files).
                          map (os_path_join root) (filter (\<lambda>file. endswith file ''.gz'') files))
                       (os_walk folder_path (fs w)))),
      w))"

definition create_json_files :: "string list \<Rightarrow> unit py" where
  "create_json_files gz_files =
     py_for gz_files (\<lambda>gz_file.
       py_bind (nib_load gz_file) (\<lambda>img.
       let dimensions = img_shape img;
           dimensions = take 3 dimensions;
           spacing = take 3 (img_zooms img);
           spacing = take 3 spacing;
           spacing = map JFloat spacing;
           data = JObj [(''dim'', JArr (map (JInt \<circ> int) dimensions)),
                        (''spacing'', JArr spacing),
                        (''top_region_index'', JArr [JInt 0, JInt 1, JInt 0, JInt 0]),
                        (''bottom_region_index'', JArr [JInt 0, JInt 0, JInt 1, JInt 0])];
           json_filename = gz_file @ ''.json''
       in json_dump data json_filename False))"

definition cell16 :: "unit py" where
  "cell16 =
     py_bind (py_var env_config_out) (\<lambda>env_config_out.
     py_bind (py_getitem env_config_out ''embedding_base_dir'') (\<lambda>folder_path.
     py_bind (py_lift (os_fspath folder_path)) (\<lambda>folder_path.
     py_bind (list_gz_files folder_path) (\<lambda>gz_files.
     create_json_files gz_files))))"

subsection \<open>The notebook\<close>

definition notebook :: "platform \<Rightarrow> unit py" where
  "notebook P =
     py_seq [cell3, cell5, cell7, cell9 P, cell11, cell12, cell14 P, cell16, cell18 P, cell20 P]"


subsection \<open>A sample run\<close>

text \<open>
  A small machine on which the notebook runs through: three configuration files, a
  launcher whose processes print two lines and a warning and exit with code 1, and a
  first stage that leaves one embedding behind.
\<close>

definition demo_env :: json where
  "demo_env = JObj [(''data_base_dir'', JStr ''./data''), (''embedding_base_dir'', JStr ''embeddings''),
     (''json_data_list'', JStr ''./list.json''), (''model_dir'', JStr ''models''),
     (''model_filename'', JStr ''diff_unet_ckpt.pt''), (''output_dir'', JStr ''output''),
     (''trained_autoencoder_path'', JStr ''models/autoencoder_epoch273.pt'')]"

definition demo_model_config :: json where
  "demo_model_config = JObj [(''diffusion_unet_train'',
        JObj [(''lr'', JFloat 0.0001), (''batch_size'', JInt 1), (''n_epochs'', JInt 1000)]),
      (''diffusion_unet_inference'', JObj [(''num_inference_steps'', JInt 10)])]"

definition demo_model_def :: json where
  "demo_model_def = JObj [(''spatial_dims'', JInt 3),
      (''autoencoder_def'', JObj [(''num_splits'', JInt 16), (''latent_channels'', JInt 4)])]"

definition demo_image :: nifti where
  "demo_image = \<lparr>img_shape = [56, 56, 24, 4], img_zooms = [1, 1, 1.5, 1], img_affine = np_eye 4,
     img_data = []\<rparr>"

definition demo_proc :: "string list \<Rightarrow> proc" where
  "demo_proc cmd =
     \<lparr>pending = [Line (ustr ''step 1\<newline>''), Line (ustr '' done \<newline>'')],
      polls_alive = Some 1, returncode = 1,
      comm = CommReturns [] (ustr ''warn''),
      effect = (if ''scripts.diff_model_create_training_data'' \<in> set cmd
                then AList.update ''./temp_work_dir/embeddings/tr_image_001_emb.nii.gz''
                       (NiftiFile demo_image)
                else id)\<rparr>"

definition demo_spawn ::
  "string list \<Rightarrow> (string \<times> string) list \<Rightarrow> filesystem \<Rightarrow> proc option" where
  "demo_spawn cmd env f = Some (demo_proc cmd)"

definition demo_platform :: platform where
  "demo_platform =
     \<lparr>spawn = demo_spawn, synth = (\<lambda>h w d r n rs. (([0.5], [1]), rs)),
      col_norm = (\<lambda>v. if v = [1,0,0] \<or> v = [0,1,0] \<or> v = [0,0,1] then 1 else 0)\<rparr>"

definition demo_world :: world where
  "demo_world =
     \<lparr>fs = [(env_config_path, JsonFile demo_env),
            (model_config_path, JsonFile demo_model_config),
            (model_def_path, JsonFile demo_model_def)],
     fs_log = [], heap = [], environ = [(''PATH'', ''/usr/bin'')], timeline = [], popen_calls = [],
     shell_calls = [],
     env_config = 0, model_config = 0, model_def = 0, env_config_out = 0, model_config_out = 0, model_def_out = 0\<rparr>"

section \<open>Reasoning about statements\<close>

text \<open>
  \<open>post m QN QE w\<close>: running \<open>m\<close> from \<open>w\<close> ends, and in a state that satisfies \<open>QN\<close>
  with the value returned, or \<open>QE\<close> with the exception raised.
\<close>

definition post ::
  "'a py \<Rightarrow> ('a \<Rightarrow> world \<Rightarrow> bool) \<Rightarrow> (error \<Rightarrow> world \<Rightarrow> bool) \<Rightarrow> world \<Rightarrow> bool" where
  "post m QN QE w =
     (case m w of
        (Inl (Raises e), w') \<Rightarrow> QE e w'
      | (Inl Hangs, w') \<Rightarrow> False
      | (Inr x, w') \<Rightarrow> QN x w')"

text \<open>
  What the streaming loop reads: the lines before the first call of \<^verbatim>\<open>readline\<close> that
  does not return one, and what that call does (\<open>None\<close> at the end of the stream).
\<close>

fun lines_read :: "read_event list \<Rightarrow> unicode list" where
  "lines_read (Line s # es) = s # lines_read es"
| "lines_read es = []"

fun read_end :: "read_event list \<Rightarrow> read_event option" where
  "read_end [] = None"
| "read_end (Line s # es) = read_end es"
| "read_end (ev # es) = Some ev"

text \<open>
  The course of a launch, part by part. \<open>streamed\<close>: every line is shown, stripped,
  as soon as \<^verbatim>\<open>readline\<close> has returned it and before anything else is asked of the
  process. \<open>loop_hangs\<close>: the loop never ends. \<open>loop_events\<close>: what ends the loop
  otherwise, the end of the stream followed by the polls until the process has exited,
  or an exception of \<^verbatim>\<open>readline\<close>, whose message is shown. \<open>final_events\<close>: the \<^verbatim>\<open>finally\<close>
  block, where \<^verbatim>\<open>communicate\<close> returns the rest of the output and the standard error
  and each is shown in one piece (the second unless it is empty), or raises.
  \<open>run_outcome\<close>: how the launcher ends.
\<close>

definition streamed :: "unicode list \<Rightarrow> io_event list" where
  "streamed ls = concat (map (\<lambda>s. [Got s, Printed (strip s)]) ls)"

definition loop_hangs :: "proc \<Rightarrow> bool" where
  "loop_hangs p =
     (case read_end (pending p) of
        None \<Rightarrow> polls_alive p = None
      | Some (ReadError e) \<Rightarrow> False
      | Some ev \<Rightarrow> True)"

definition loop_events :: "proc \<Rightarrow> io_event list" where
  "loop_events p =
     (case read_end (pending p) of
        None \<Rightarrow>
          (case polls_alive p of
             None \<Rightarrow> [Got [], Polled False]
           | Some k \<Rightarrow> concat (replicate k [Got [], Polled False]) @ [Got [], Polled True])
      | Some (ReadError e) \<Rightarrow>
          [GotError e, Printed (ustr ''An error occurred: '' @ ustr (str_error e))]
      | Some ev \<Rightarrow> [])"

definition final_events :: "proc \<Rightarrow> io_event list" where
  "final_events p =
     (case comm p of
        CommReturns out err \<Rightarrow>
          [Communicated out err, Printed out] @ (if err \<noteq> [] then [Printed err] else [])
      | CommRaises e \<Rightarrow> [CommunicateError e]
      | CommHangs \<Rightarrow> [])"

definition run_outcome :: "proc \<Rightarrow> stop + unit" where
  "run_outcome p =
     (if loop_hangs p then Inl Hangs
      else case comm p of
             CommReturns out err \<Rightarrow> Inr ()
           | CommRaises e \<Rightarrow> Inl (Raises e)
           | CommHangs \<Rightarrow> Inl Hangs)"

text \<open>The command line and the environment of a launch.\<close>

definition torchrun_command :: "string \<Rightarrow> string list \<Rightarrow> int \<Rightarrow> string list" where
  "torchrun_command module_name module_args n =
     [''torchrun'', ''--nproc_per_node'', str_int n, ''--nnodes'', ''1'', ''-m'', module_name] @
     module_args"

definition torchrun_env :: "world \<Rightarrow> (string \<times> string) list" where
  "torchrun_env w = AList.update ''OMP_NUM_THREADS'' ''1'' (environ w)"







text \<open>
  For the statements about cell 11: what \<^verbatim>\<open>os.makedirs(p, exist_ok=True)\<close> leaves when
  it returns, and the state in which the cell ends when it runs through, given the
  three documents it loaded.
\<close>

definition mkdir_fs :: "string \<Rightarrow> filesystem \<Rightarrow> filesystem" where
  "mkdir_fs p f = (if map_of f p = None then AList.update p Dir f else f)"

definition mkdir_log :: "string \<Rightarrow> filesystem \<Rightarrow> fs_event list" where
  "mkdir_log p f = (if map_of f p = None then [MadeDir p] else [])"

definition dir_or_free :: "filesystem \<Rightarrow> string \<Rightarrow> bool" where
  "dir_or_free f p = (map_of f p = None \<or> map_of f p = Some Dir)"

definition env_patched :: "(string \<times> json) list \<Rightarrow> string \<Rightarrow> string \<Rightarrow> string \<Rightarrow> json" where
  "env_patched kvs s1 s2 s3 =
     JObj (AList.update ''trained_autoencoder_path'' JNull
          (AList.update ''output_dir'' (JStr (os_path_join work_dir s3))
          (AList.update ''model_dir'' (JStr (os_path_join work_dir s2))
          (AList.update ''json_data_list'' (JStr datalist_file)
          (AList.update ''embedding_base_dir'' (JStr (os_path_join work_dir s1))
          (AList.update ''data_base_dir'' (JStr dataroot_dir) kvs))))))"

definition nested_patched :: "(string \<times> json) list \<Rightarrow> string \<Rightarrow> (string \<times> json) list \<Rightarrow> string \<Rightarrow> json \<Rightarrow> json" where
  "nested_patched kvs key1 inner key2 v =
     JObj (AList.update key1 (JObj (AList.update key2 v inner)) kvs)"

definition cell11_result ::
  "world \<Rightarrow> (string \<times> json) list \<Rightarrow> string \<Rightarrow> string \<Rightarrow> string \<Rightarrow>
   (string \<times> json) list \<Rightarrow> (string \<times> json) list \<Rightarrow>
   (string \<times> json) list \<Rightarrow> (string \<times> json) list \<Rightarrow> world" where
  "cell11_result w kvs s1 s2 s3 kvm inner kvd inner' =
     (let n = length (heap w);
          e' = env_patched kvs s1 s2 s3;
          m' = nested_patched kvm ''diffusion_unet_train'' inner ''n_epochs'' (JInt 2);
          d' = nested_patched kvd ''autoencoder_def'' inner' ''num_splits'' (JInt 4);
          d1 = os_path_join work_dir s1; d2 = os_path_join work_dir s2;
          d3 = os_path_join work_dir s3;
          f1 = mkdir_fs d1 (fs w); f2 = mkdir_fs d2 f1; f3 = mkdir_fs d3 f2
      in w\<lparr>env_config := n, model_config := n + 1, model_def := n + 2,
            env_config_out := n + 3, model_config_out := n + 4, model_def_out := n + 5,
            heap := heap w @ [JObj kvs, JObj kvm, JObj kvd, e', m', d'],
            fs := AList.update model_def_filepath (JsonFile (sort_keys_json d'))
                 (AList.update model_config_filepath (JsonFile (sort_keys_json m'))
                 (AList.update env_config_filepath (JsonFile (sort_keys_json e')) f3)),
            fs_log := fs_log w @ mkdir_log d1 (fs w) @ mkdir_log d2 f1 @ mkdir_log d3 f2 @
              [Wrote env_config_filepath (JsonFile (sort_keys_json e')),
               Wrote model_config_filepath (JsonFile (sort_keys_json m')),
               Wrote model_def_filepath (JsonFile (sort_keys_json d'))]\<rparr>)"

text \<open>
  What the notebook may leave in its record of the file system: a directory made, a
  JSON dictionary written, a NIfTI image written. \<open>log_ok w w'\<close>: from \<open>w\<close> to \<open>w'\<close>
  the record has grown by such events only. A statement is \<open>tidy\<close> when, however it
  ends, it leaves the environment and the record of launches alone and adds only such
  events.
\<close>

fun notebook_event :: "fs_event \<Rightarrow> bool" where
  "notebook_event (MadeDir p) = True"
| "notebook_event (Wrote p (JsonFile (JObj kvs))) = True"
| "notebook_event (Wrote p (NiftiFile img)) = True"
| "notebook_event (Wrote p c) = False"

definition log_ok :: "world \<Rightarrow> world \<Rightarrow> bool" where
  "log_ok w w' = (\<exists>evs. fs_log w' = fs_log w @ evs \<and> list_all notebook_event evs)"

definition tidy :: "'a py \<Rightarrow> bool" where
  "tidy m = (\<forall>w. environ (snd (m w)) = environ w \<and> popen_calls (snd (m w)) = popen_calls w \<and>
                 log_ok w (snd (m w)))"


definition step_ok ::
  "unit py \<Rightarrow> ((string \<times> string) list \<Rightarrow> (string list \<times> (string \<times> string) list) list) \<Rightarrow>
   bool" where
  "step_ok c calls =
     (\<forall>w. environ (snd (c w)) = environ w \<and>
          popen_calls (snd (c w)) = popen_calls w @ calls (environ w) \<and>
          log_ok w (snd (c w)))"

definition stage_call ::
  "string \<Rightarrow> (string \<times> string) list \<Rightarrow> string list \<times> (string \<times> string) list" where
  "stage_call module_name env =
     ([''torchrun'', ''--nproc_per_node'', ''1'', ''--nnodes'', ''1'', ''-m'', module_name,
       ''--env_config'', env_config_filepath, ''--model_config'', model_config_filepath,
       ''--model_def'', model_def_filepath],
      AList.update ''OMP_NUM_THREADS'' ''1'' env)"

text \<open>
  The sample run, cell by cell: the states in which the cells end when the notebook is
  run from \<open>demo_world\<close> on \<open>demo_platform\<close>, and the state in which cell 14 ends on
  \<open>garbled_platform\<close>.
\<close>

definition demo_volume :: nifti where
  "demo_volume = \<lparr>img_shape = [224, 224, 96], img_zooms = [1, 1, 1], img_affine = np_eye 4,
     img_data = [1 / 2]\<rparr>"

definition demo_env_out :: json where
  "demo_env_out = JObj [(''data_base_dir'', JStr ''./temp_work_dir/sim_dataroot''),
     (''embedding_base_dir'', JStr ''./temp_work_dir/embeddings''),
     (''json_data_list'', JStr ''./temp_work_dir/sim_datalist.json''),
     (''model_dir'', JStr ''./temp_work_dir/models''),
     (''model_filename'', JStr ''diff_unet_ckpt.pt''),
     (''output_dir'', JStr ''./temp_work_dir/output''),
     (''trained_autoencoder_path'', JNull)]"

definition demo_model_config_out :: json where
  "demo_model_config_out = JObj [(''diffusion_unet_train'',
       JObj [(''lr'', JFloat (1 / 10000)), (''batch_size'', JInt 1), (''n_epochs'', JInt 2)]),
     (''diffusion_unet_inference'', JObj [(''num_inference_steps'', JInt 10)])]"

definition demo_model_def_out :: json where
  "demo_model_def_out = JObj [(''spatial_dims'', JInt 3),
     (''autoencoder_def'', JObj [(''num_splits'', JInt 4), (''latent_channels'', JInt 4)])]"

definition demo_sidecar :: json where
  "demo_sidecar = JObj [(''dim'', JArr [JInt 56, JInt 56, JInt 24]),
     (''spacing'', JArr [JFloat 1, JFloat 1, JFloat (3 / 2)]),
     (''top_region_index'', JArr [JInt 0, JInt 1, JInt 0, JInt 0]),
     (''bottom_region_index'', JArr [JInt 0, JInt 0, JInt 1, JInt 0])]"

definition demo_launch :: "string \<Rightarrow> string list \<times> (string \<times> string) list" where
  "demo_launch module_name =
     ([''torchrun'', ''--nproc_per_node'', ''1'', ''--nnodes'', ''1'', ''-m'', module_name,
       ''--env_config'', ''./temp_work_dir/environment_maisi_diff_model.json'',
       ''--model_config'', ''./temp_work_dir/config_maisi_diff_model.json'',
       ''--model_def'', ''./temp_work_dir/config_maisi.json''],
      [(''PATH'', ''/usr/bin''), (''OMP_NUM_THREADS'', ''1'')])"

definition demo_output :: "io_event list" where
  "demo_output =
     [Got (ustr ''step 1\<newline>''), Printed (ustr ''step 1''),
      Got (ustr '' done \<newline>''), Printed (ustr ''done''),
      Got [], Polled False, Got [], Polled True,
      Communicated [] (ustr ''warn''), Printed [], Printed (ustr ''warn'')]"

definition demo_after_cell9 :: world where
  "demo_after_cell9 = demo_world
     \<lparr>fs := fs demo_world @
        [(''./temp_work_dir'', Dir), (''./temp_work_dir/sim_dataroot'', Dir),
         (''./temp_work_dir/sim_datalist.json'', JsonFile sim_datalist),
         (''./temp_work_dir/sim_dataroot/tr_image_001.nii.gz'', NiftiFile demo_volume),
         (''./temp_work_dir/sim_dataroot/tr_image_002.nii.gz'', NiftiFile demo_volume)],
      fs_log :=
        [MadeDir ''./temp_work_dir'', MadeDir ''./temp_work_dir/sim_dataroot'',
         Wrote ''./temp_work_dir/sim_datalist.json'' (JsonFile sim_datalist),
         Wrote ''./temp_work_dir/sim_dataroot/tr_image_001.nii.gz'' (NiftiFile demo_volume),
         Wrote ''./temp_work_dir/sim_dataroot/tr_image_002.nii.gz'' (NiftiFile demo_volume)],
      shell_calls := [''python -c '' @ dq ''import monai'' @ '' || pip install -q '' @
         dq ''monai-weekly[pillow, tqdm]'']\<rparr>"

definition demo_after_cell11 :: world where
  "demo_after_cell11 = demo_after_cell9
     \<lparr>fs := fs demo_after_cell9 @
        [(''./temp_work_dir/embeddings'', Dir), (''./temp_work_dir/models'', Dir),
         (''./temp_work_dir/output'', Dir),
         (''./temp_work_dir/environment_maisi_diff_model.json'', JsonFile (sort_keys_json demo_env_out)),
         (''./temp_work_dir/config_maisi_diff_model.json'', JsonFile (sort_keys_json demo_model_config_out)),
         (''./temp_work_dir/config_maisi.json'', JsonFile (sort_keys_json demo_model_def_out))],
      fs_log := fs_log demo_after_cell9 @
        [MadeDir ''./temp_work_dir/embeddings'', MadeDir ''./temp_work_dir/models'',
         MadeDir ''./temp_work_dir/output'',
         Wrote ''./temp_work_dir/environment_maisi_diff_model.json'' (JsonFile (sort_keys_json demo_env_out)),
         Wrote ''./temp_work_dir/config_maisi_diff_model.json'' (JsonFile (sort_keys_json demo_model_config_out)),
         Wrote ''./temp_work_dir/config_maisi.json'' (JsonFile (sort_keys_json demo_model_def_out))],
      heap := [demo_env, demo_model_config, demo_model_def,
               demo_env_out, demo_model_config_out, demo_model_def_out],
      env_config := 0, model_config := 1, model_def := 2,
      env_config_out := 3, model_config_out := 4, model_def_out := 5\<rparr>"

definition demo_after_cell14 :: world where
  "demo_after_cell14 = demo_after_cell11
     \<lparr>fs := fs demo_after_cell11 @
        [(''./temp_work_dir/embeddings/tr_image_001_emb.nii.gz'', NiftiFile demo_image)],
      timeline := demo_output,
      popen_calls := [demo_launch ''scripts.diff_model_create_training_data'']\<rparr>"

definition demo_after_cell16 :: world where
  "demo_after_cell16 = demo_after_cell14
     \<lparr>fs := fs demo_after_cell14 @
        [(''./temp_work_dir/embeddings/tr_image_001_emb.nii.gz.json'', JsonFile demo_sidecar)],
      fs_log := fs_log demo_after_cell14 @
        [Wrote ''./temp_work_dir/embeddings/tr_image_001_emb.nii.gz.json'' (JsonFile demo_sidecar)]\<rparr>"

definition demo_after_cell18 :: world where
  "demo_after_cell18 = demo_after_cell16
     \<lparr>timeline := demo_output @ demo_output,
      popen_calls := [demo_launch ''scripts.diff_model_create_training_data'',
                      demo_launch ''scripts.diff_model_train'']\<rparr>"

definition demo_after_cell20 :: world where
  "demo_after_cell20 = demo_after_cell18
     \<lparr>timeline := demo_output @ demo_output @ demo_output,
      popen_calls := [demo_launch ''scripts.diff_model_create_training_data'',
                      demo_launch ''scripts.diff_model_train'',
                      demo_launch ''scripts.diff_model_infer'']\<rparr>"



section \<open>Properties\<close>

subsection \<open>Rules for the statements\<close>

lemma str_int_1: "str_int 1 = ''1''"
  by (simp add: str_int_def digit_char_def)

lemma post_return: "post (py_return x) QN QE w = QN x w"
  by (simp add: post_def py_return_def)

lemma post_raise: "post (py_raise e) QN QE w = QE e w"
  by (simp add: post_def py_raise_def)

lemma post_bind: "post (py_bind m f) QN QE w = post m (\<lambda>x. post (f x) QN QE) QE w"
  by (simp add: post_def py_bind_def split: prod.splits sum.splits stop.splits)

lemma post_lift: "post (py_lift r) QN QE w = (case r of Inl e \<Rightarrow> QE e w | Inr x \<Rightarrow> QN x w)"
  by (simp add: post_def py_lift_def py_return_def py_raise_def split: sum.splits stop.splits)

lemma post_var: "post (py_var x) QN QE w = QN (x w) w"
  by (simp add: post_def py_var_def)

lemma post_assign:
  "post (assign x_update e) QN QE w = post e (\<lambda>r w'. QN r (x_update (\<lambda>_. r) w')) QE w"
  by (simp add: post_def assign_def py_bind_def split: prod.splits sum.splits stop.splits)

lemma post_new: "post (py_new obj) QN QE w = QN (length (heap w)) (w\<lparr>heap := heap w @ [obj]\<rparr>)"
  by (simp add: post_def py_new_def)

lemma post_deref:
  "post (py_deref r) QN QE w =
     (if r < length (heap w) then QN (heap w ! r) w else QE (NameError ''name is not defined'') w)"
  by (simp add: post_def py_deref_def)

lemma post_store: "post (py_store r obj) QN QE w = QN () (w\<lparr>heap := (heap w)[r := obj]\<rparr>)"
  by (simp add: post_def py_store_def)

lemma post_isdir: "post (os_path_isdir p) QN QE w = QN (map_of (fs w) p = Some Dir) w"
  by (simp add: post_def os_path_isdir_def)

lemma post_makedirs:
  "post (os_makedirs p exist_ok) QN QE w =
     ((map_of (fs w) p = None \<longrightarrow>
         QN () (w\<lparr>fs := AList.update p Dir (fs w), fs_log := fs_log w @ [MadeDir p]\<rparr>)) \<and>
      (map_of (fs w) p = Some Dir \<longrightarrow> (if exist_ok then QN () w else QE (FileExistsError p) w)) \<and>
      (map_of (fs w) p \<noteq> None \<and> map_of (fs w) p \<noteq> Some Dir \<longrightarrow> QE (FileExistsError p) w))"
  by (auto simp add: post_def os_makedirs_def split: option.splits entry.splits)

lemma post_write_file:
  "post (write_file p c) QN QE w =
     ((map_of (fs w) p = Some Dir \<longrightarrow> QE (IsADirectoryError p) w) \<and>
      (map_of (fs w) p \<noteq> Some Dir \<longrightarrow>
         QN () (w\<lparr>fs := AList.update p c (fs w), fs_log := fs_log w @ [Wrote p c]\<rparr>)))"
  by (auto simp add: post_def write_file_def split: option.splits entry.splits)

lemma post_json_load:
  "post (json_load p) QN QE w =
     ((\<forall>doc. map_of (fs w) p = Some (JsonFile doc) \<longrightarrow>
          QN (length (heap w)) (w\<lparr>heap := heap w @ [doc]\<rparr>)) \<and>
      (map_of (fs w) p = None \<longrightarrow> QE (FileNotFoundError p) w) \<and>
      (map_of (fs w) p = Some Dir \<longrightarrow> QE (IsADirectoryError p) w) \<and>
      ((\<exists>e. map_of (fs w) p = Some e \<and> e \<noteq> Dir \<and> (\<forall>doc. e \<noteq> JsonFile doc)) \<longrightarrow>
          QE (JSONDecodeError p) w))"
  by (auto simp add: post_def json_load_def py_new_def split: option.splits entry.splits)

lemma post_nib_load:
  "post (nib_load p) QN QE w =
     ((\<forall>img. map_of (fs w) p = Some (NiftiFile img) \<longrightarrow> QN img w) \<and>
      (map_of (fs w) p = None \<longrightarrow> QE (FileNotFoundError p) w) \<and>
      ((\<exists>e. map_of (fs w) p = Some e \<and> (\<forall>img. e \<noteq> NiftiFile img)) \<longrightarrow> QE (ImageFileError p) w))"
  by (auto simp add: post_def nib_load_def split: option.splits entry.splits)

lemmas post_simps = post_return post_raise post_bind post_lift post_var post_assign post_new
  post_deref post_store post_isdir post_makedirs post_write_file post_json_load post_nib_load


lemma post_partial:
  "post m (\<lambda>x w'. Q w') (\<lambda>_ _. True) w \<Longrightarrow> fst (m w) = Inr u \<Longrightarrow> Q (snd (m w))"
  by (cases "m w") (auto simp: post_def split: sum.splits stop.splits)

lemma sim_paths:
  "work_dir = ''./temp_work_dir''"
  "dataroot_dir = ''./temp_work_dir/sim_dataroot''"
  "datalist_file = ''./temp_work_dir/sim_datalist.json''"
  "os_path_join dataroot_dir ''tr_image_001.nii.gz'' = ''./temp_work_dir/sim_dataroot/tr_image_001.nii.gz''"
  "os_path_join dataroot_dir ''tr_image_002.nii.gz'' = ''./temp_work_dir/sim_dataroot/tr_image_002.nii.gz''"
  by (simp_all add: work_dir_def dataroot_dir_def datalist_file_def os_path_join_def)

subsection \<open>The streaming loop and the launcher\<close>

declare stream_loop.simps [simp del]

lemma stream_loop_eof_never:
  "pending p = [] \<Longrightarrow> polls_alive p = None \<Longrightarrow>
   stream_loop p w =
     (Inl Hangs, w\<lparr>timeline := timeline w @ [Got [], Polled False], fs := effect p (fs w)\<rparr>)"
  by (subst stream_loop.simps) (simp add: readline_def poll_def)

lemma stream_loop_eof:
  "pending p = [] \<Longrightarrow> polls_alive p = Some k \<Longrightarrow>
   stream_loop p w =
     (Inr (), w\<lparr>timeline := timeline w @ concat (replicate k [Got [], Polled False]) @
                  [Got [], Polled True]\<rparr>)"
proof (induction k arbitrary: p w)
  case 0
  then show ?case
    by (subst stream_loop.simps) (simp add: readline_def poll_def)
next
  case (Suc k)
  have "stream_loop p w =
      stream_loop (p\<lparr>polls_alive := Some k\<rparr>) (w\<lparr>timeline := timeline w @ [Got [], Polled False]\<rparr>)"
    using Suc.prems by (subst stream_loop.simps) (simp add: readline_def poll_def)
  also have "\<dots> = (Inr (), w\<lparr>timeline := timeline w @ [Got [], Polled False] @
      concat (replicate k [Got [], Polled False]) @ [Got [], Polled True]\<rparr>)"
    using Suc.prems by (subst Suc.IH) simp_all
  finally show ?case by simp
qed

lemma stream_loop_line:
  "pending p = Line s # evs \<Longrightarrow> s \<noteq> [] \<Longrightarrow>
   stream_loop p w =
     stream_loop (p\<lparr>pending := evs\<rparr>) (w\<lparr>timeline := timeline w @ [Got s, Printed (strip s)]\<rparr>)"
  by (subst stream_loop.simps) (simp add: readline_def py_print_def)

lemma stream_loop_exact:
  "Line [] \<notin> set evs \<Longrightarrow> pending p = evs \<Longrightarrow>
   stream_loop p w =
     (case read_end evs of
        None \<Rightarrow>
          (case polls_alive p of
             None \<Rightarrow>
               (Inl Hangs,
                w\<lparr>timeline := timeline w @ streamed (lines_read evs) @ [Got [], Polled False],
                  fs := effect p (fs w)\<rparr>)
           | Some k \<Rightarrow>
               (Inr (),
                w\<lparr>timeline := timeline w @ streamed (lines_read evs) @
                     concat (replicate k [Got [], Polled False]) @ [Got [], Polled True]\<rparr>))
      | Some (ReadError e) \<Rightarrow>
          (Inl (Raises e), w\<lparr>timeline := timeline w @ streamed (lines_read evs) @ [GotError e]\<rparr>)
      | Some ev \<Rightarrow>
          (Inl Hangs,
           w\<lparr>timeline := timeline w @ streamed (lines_read evs), fs := effect p (fs w)\<rparr>))"
proof (induction evs arbitrary: p w)
  case Nil
  then show ?case
    by (cases "polls_alive p") (simp_all add: stream_loop_eof stream_loop_eof_never streamed_def)
next
  case (Cons ev evs)
  show ?case
  proof (cases ev)
    case (Line s)
    with Cons.prems have s: "s \<noteq> []" by auto
    have "stream_loop p w =
        stream_loop (p\<lparr>pending := evs\<rparr>) (w\<lparr>timeline := timeline w @ [Got s, Printed (strip s)]\<rparr>)"
      using Cons.prems(2) Line s by (simp add: stream_loop_line)
    moreover have "Line [] \<notin> set evs" using Cons.prems(1) by simp
    ultimately show ?thesis
      using Line Cons.IH [of "p\<lparr>pending := evs\<rparr>"]
      by (simp add: streamed_def split: option.splits read_event.splits)
  next
    case (ReadError e)
    then show ?thesis
      using Cons.prems(2)
      by (subst stream_loop.simps) (simp add: readline_def streamed_def)
  next
    case ReadHangs
    then show ?thesis
      using Cons.prems(2)
      by (subst stream_loop.simps) (simp add: readline_def streamed_def)
  qed
qed

lemma stream_loop_frame:
  "\<exists>r out g. (\<forall>w. stream_loop p w = (r, w\<lparr>timeline := timeline w @ out, fs := g (fs w)\<rparr>))
     \<and> (if r = Inl Hangs then g = effect p else g = id)"
proof (induction "length (pending p) + (case polls_alive p of None \<Rightarrow> 0 | Some k \<Rightarrow> k)"
    arbitrary: p rule: less_induct)
  case less
  have step: "\<exists>r out g. (\<forall>w. stream_loop p w = (r, w\<lparr>timeline := timeline w @ out, fs := g (fs w)\<rparr>))
       \<and> (if r = Inl Hangs then g = effect p else g = id)"
    if le: "length (pending p') + (case polls_alive p' of None \<Rightarrow> 0 | Some k \<Rightarrow> k) <
          length (pending p) + (case polls_alive p of None \<Rightarrow> 0 | Some k \<Rightarrow> k)"
      and eff: "effect p' = effect p"
      and eq: "\<forall>w. stream_loop p w = stream_loop p' (w\<lparr>timeline := timeline w @ pre\<rparr>)"
    for p' pre
  proof -
    from less [OF le] obtain r out g where
      f: "\<forall>w. stream_loop p' w = (r, w\<lparr>timeline := timeline w @ out, fs := g (fs w)\<rparr>)"
      and g: "if r = Inl Hangs then g = effect p' else g = id"
      by blast
    have "\<forall>w. stream_loop p w = (r, w\<lparr>timeline := timeline w @ (pre @ out), fs := g (fs w)\<rparr>)"
      using eq f by simp
    with g eff show ?thesis by metis
  qed
  have stop: "\<exists>r out g. (\<forall>w. stream_loop p w = (r, w\<lparr>timeline := timeline w @ out, fs := g (fs w)\<rparr>))
       \<and> (if r = Inl Hangs then g = effect p else g = id)"
    if "\<forall>w. stream_loop p w = (r, w\<lparr>timeline := timeline w @ out, fs := g (fs w)\<rparr>)"
      "if r = Inl Hangs then g = effect p else g = id" for r out g
    using that by blast
  show ?case
  proof (cases "pending p")
    case Nil
    show ?thesis
    proof (cases "polls_alive p")
      case None
      show ?thesis
        by (rule stop [where r = "Inl Hangs" and out = "[Got [], Polled False]" and g = "effect p"])
          (simp_all add: stream_loop_eof_never Nil None)
    next
      case (Some k)
      show ?thesis
        by (rule stop [where r = "Inr ()" and g = id and
              out = "concat (replicate k [Got [], Polled False]) @ [Got [], Polled True]"])
          (simp_all add: stream_loop_eof [OF Nil Some])
    qed
  next
    case (Cons ev evs)
    show ?thesis
    proof (cases ev)
      case (ReadError e)
      show ?thesis
        by (rule stop [where r = "Inl (Raises e)" and out = "[GotError e]" and g = id])
          (use Cons ReadError in \<open>simp_all add: stream_loop.simps [of p] readline_def\<close>)
    next
      case ReadHangs
      show ?thesis
        by (rule stop [where r = "Inl Hangs" and out = "[]" and g = "effect p"])
          (use Cons ReadHangs in \<open>simp_all add: stream_loop.simps [of p] readline_def\<close>)
    next
      case (Line s)
      show ?thesis
      proof (cases "s = []")
        case False
        show ?thesis
          by (rule step [where p' = "p\<lparr>pending := evs\<rparr>" and pre = "[Got s, Printed (strip s)]"])
            (use Cons Line False in \<open>simp_all add: stream_loop_line\<close>)
      next
        case True
        show ?thesis
        proof (cases "polls_alive p")
          case None
          show ?thesis
          proof (cases "evs = []")
            case True
            show ?thesis
              by (rule stop [where r = "Inl Hangs" and out = "[Got [], Polled False]" and
                    g = "effect p"])
                (use Cons Line \<open>s = []\<close> None True in
                  \<open>simp_all add: stream_loop.simps [of p] readline_def poll_def\<close>)
          next
            case False
            show ?thesis
              by (rule step [where p' = "p\<lparr>pending := evs\<rparr>" and
                    pre = "[Got [], Polled False]"])
                (use Cons Line \<open>s = []\<close> None False in
                  \<open>simp_all add: stream_loop.simps [of p] readline_def poll_def\<close>)
          qed
        next
          case (Some k)
          show ?thesis
          proof (cases k)
            case 0
            show ?thesis
              by (rule stop [where r = "Inr ()" and out = "[Got [], Polled True]" and g = id])
                (use Cons Line True Some 0 in
                  \<open>simp_all add: stream_loop.simps [of p] readline_def poll_def\<close>)
          next
            case (Suc k')
            show ?thesis
              by (rule step [where p' = "p\<lparr>pending := evs, polls_alive := Some k'\<rparr>" and
                    pre = "[Got [], Polled False]"])
                (use Cons Line True Some Suc in
                  \<open>simp_all add: stream_loop.simps [of p] readline_def poll_def\<close>)
          qed
        qed
      qed
    qed
  qed
qed

lemma run_torchrun_not_spawned:
  assumes "spawn P (torchrun_command m a n) (torchrun_env w) (fs w) = None"
  shows "run_torchrun P m a n w =
           (Inl (Raises (FileNotFoundError ''torchrun'')),
            w\<lparr>popen_calls := popen_calls w @ [(torchrun_command m a n, torchrun_env w)]\<rparr>)"
  using assms
  by (simp add: run_torchrun_def str_int_1 py_bind_def os_environ_copy_def Popen_def Let_def
      torchrun_command_def torchrun_env_def)

lemma run_torchrun_unfold:
  assumes "spawn P (torchrun_command m a n) (torchrun_env w) (fs w) = Some p"
  shows "run_torchrun P m a n w =
      py_try (stream_loop p)
        (\<lambda>e. py_print (ustr ''An error occurred: '' @ ustr (str_error e)))
        (py_bind (communicate p) (\<lambda>(stdout, stderr).
         py_bind (py_print stdout) (\<lambda>_.
         if stderr \<noteq> [] then py_print stderr else py_return ())))
        (w\<lparr>popen_calls := popen_calls w @ [(torchrun_command m a n, torchrun_env w)]\<rparr>)"
  using assms
  by (simp add: run_torchrun_def str_int_1 py_bind_def os_environ_copy_def Popen_def Let_def
      torchrun_command_def torchrun_env_def py_return_def split: prod.splits sum.splits stop.splits)

text \<open>The \<^verbatim>\<open>finally\<close> block of the launcher.\<close>

lemma py_print_apply:
  "py_print s w = (Inr (), w\<lparr>timeline := timeline w @ [Printed s]\<rparr>)"
  by (simp add: py_print_def)

lemma final_block:
  "py_bind (communicate p) (\<lambda>(stdout, stderr).
     py_bind (py_print stdout) (\<lambda>_.
     if stderr \<noteq> [] then py_print stderr else py_return ())) w =
   (case comm p of
      CommReturns out err \<Rightarrow> Inr ()
    | CommRaises e \<Rightarrow> Inl (Raises e)
    | CommHangs \<Rightarrow> Inl Hangs,
    w\<lparr>timeline := timeline w @ final_events p, fs := effect p (fs w)\<rparr>)"
  by (cases "comm p")
    (simp_all add: py_bind_def communicate_def py_print_def py_return_def Let_def
      final_events_def)

lemma run_torchrun_spawned:
  assumes "spawn P (torchrun_command m a n) (torchrun_env w) (fs w) = Some p"
  shows "\<exists>r out. run_torchrun P m a n w =
           (r, w\<lparr>popen_calls := popen_calls w @ [(torchrun_command m a n, torchrun_env w)],
                 timeline := timeline w @ out, fs := effect p (fs w)\<rparr>)"
proof -
  obtain r out g where
    sl: "\<forall>w. stream_loop p w = (r, w\<lparr>timeline := timeline w @ out, fs := g (fs w)\<rparr>)"
    and g: "if r = Inl Hangs then g = effect p else g = id"
    using stream_loop_frame by blast
  let ?w = "w\<lparr>popen_calls := popen_calls w @ [(torchrun_command m a n, torchrun_env w)]\<rparr>"
  let ?fo = "case comm p of CommReturns out err \<Rightarrow> Inr () | CommRaises e \<Rightarrow> Inl (Raises e)
     | CommHangs \<Rightarrow> Inl Hangs"
  show ?thesis
  proof (cases r)
    case (Inr u)
    with g have "g = id" by simp
    then have "run_torchrun P m a n w =
        (case ?fo of Inl s \<Rightarrow> Inl s | Inr u \<Rightarrow> Inr (),
         ?w\<lparr>timeline := timeline w @ (out @ final_events p), fs := effect p (fs w)\<rparr>)"
      using sl Inr
      by (simp add: run_torchrun_unfold [OF assms] py_try_def final_block split: sum.splits stop.splits)
    then show ?thesis by blast
  next
    case (Inl s)
    show ?thesis
    proof (cases s)
      case Hangs
      with g Inl have "g = effect p" by simp
      then have "run_torchrun P m a n w =
          (Inl Hangs, ?w\<lparr>timeline := timeline w @ out, fs := effect p (fs w)\<rparr>)"
        using sl Inl Hangs
        by (simp add: run_torchrun_unfold [OF assms] py_try_def)
      then show ?thesis by blast
    next
      case (Raises e)
      with g Inl have "g = id" by simp
      then have "run_torchrun P m a n w =
          (case ?fo of Inl s \<Rightarrow> Inl s | Inr u \<Rightarrow> Inr (),
           ?w\<lparr>timeline := timeline w @
                 (out @ [Printed (ustr ''An error occurred: '' @ ustr (str_error e))] @
                  final_events p),
               fs := effect p (fs w)\<rparr>)"
        using sl Inl Raises
        by (simp add: run_torchrun_unfold [OF assms] py_try_def final_block py_print_apply
            split: sum.splits stop.splits)
      then show ?thesis by blast
    qed
  qed
qed

lemma run_torchrun_exact:
  assumes sp: "spawn P (torchrun_command m a n) (torchrun_env w) (fs w) = Some p"
    and ne: "Line [] \<notin> set (pending p)"
  shows "run_torchrun P m a n w =
           (run_outcome p,
            w\<lparr>popen_calls := popen_calls w @ [(torchrun_command m a n, torchrun_env w)],
              timeline := timeline w @ streamed (lines_read (pending p)) @ loop_events p @
                (if loop_hangs p then [] else final_events p),
              fs := effect p (fs w)\<rparr>)"
proof (cases "read_end (pending p)")
  case None
  show ?thesis
  proof (cases "polls_alive p")
    case pn: None
    show ?thesis
      using None pn
      by (simp add: run_torchrun_unfold [OF sp] stream_loop_exact [OF ne refl] py_try_def
          run_outcome_def loop_hangs_def loop_events_def)
  next
    case (Some k)
    show ?thesis
      using None Some
      by (cases "comm p")
        (simp_all add: run_torchrun_unfold [OF sp] stream_loop_exact [OF ne refl] py_try_def
          run_outcome_def loop_hangs_def loop_events_def final_block py_print_apply)
  qed
next
  case (Some ev)
  show ?thesis
  proof (cases ev)
    case (Line s)
    have "read_end evs \<noteq> Some (Line s)" for evs
      by (induction evs rule: read_end.induct) simp_all
    with Some Line show ?thesis by simp
  next
    case (ReadError e)
    show ?thesis
      using Some ReadError
      by (cases "comm p")
        (simp_all add: run_torchrun_unfold [OF sp] stream_loop_exact [OF ne refl] py_try_def
          run_outcome_def loop_hangs_def loop_events_def final_block py_print_apply)
  next
    case ReadHangs
    show ?thesis
      using Some ReadHangs
      by (simp add: run_torchrun_unfold [OF sp] stream_loop_exact [OF ne refl] py_try_def
          run_outcome_def loop_hangs_def loop_events_def)
  qed
qed

subsection \<open>The simulated data\<close>

lemma cell9_post:
  "post (cell9 P) (\<lambda>_ w'.
      map_of (fs w') datalist_file = Some (JsonFile sim_datalist) \<and>
      map_of (fs w') (os_path_join dataroot_dir ''tr_image_001.nii.gz'') =
        Some (NiftiFile (Nifti1Image P (fst (create_test_image_3d P 224 224 96 10 1 (RandomState 42))) (np_eye 4))) \<and>
      map_of (fs w') (os_path_join dataroot_dir ''tr_image_002.nii.gz'') =
        Some (NiftiFile (Nifti1Image P (fst (create_test_image_3d P 224 224 96 10 1 (RandomState 42))) (np_eye 4))))
    (\<lambda>_ _. True) w"
  by (simp add: cell9_def post_simps json_dump_def nib_save_def sim_datalist_def json_getitem_def
      json_iter_def os_fspath_def sim_dim_def Let_def sim_paths os_path_join_def update_conv'
      split: prod.splits)

lemma np_eye_4: "np_eye 4 = [[1, 0, 0, 0], [0, 1, 0, 0], [0, 0, 1, 0], [0, 0, 0, 1]]"
  by (simp add: np_eye_def upt_rec)

lemma sim_image_shape:
  "img_shape (Nifti1Image P (fst (create_test_image_3d P h w d r n rs)) A) = [h, w, d]"
  "img_affine (Nifti1Image P (fst (create_test_image_3d P h w d r n rs)) A) = A"
  by (simp_all add: Nifti1Image_def create_test_image_3d_def split: prod.splits)

subsection \<open>The configuration files\<close>

lemma map_of_mkdir_fs:
  "map_of (mkdir_fs p f) k = (if k = p \<and> map_of f p = None then Some Dir else map_of f k)"
  by (simp add: mkdir_fs_def update_conv')

lemma post_makedirs_exist_ok:
  "post (os_makedirs p True) QN QE w =
     ((dir_or_free (fs w) p \<longrightarrow>
         QN () (w\<lparr>fs := mkdir_fs p (fs w), fs_log := fs_log w @ mkdir_log p (fs w)\<rparr>)) \<and>
      (\<not> dir_or_free (fs w) p \<longrightarrow> QE (FileExistsError p) w))"
  by (auto simp add: post_def os_makedirs_def mkdir_fs_def mkdir_log_def dir_or_free_def
      split: option.splits entry.splits)

lemma post_getitem_lift:
  "post (py_lift (json_getitem obj key)) QN QE w =
     ((\<forall>kvs v. obj = JObj kvs \<longrightarrow> map_of kvs key = Some v \<longrightarrow> QN v w) \<and>
      (\<forall>e. json_getitem obj key = Inl e \<longrightarrow> QE e w))"
  by (cases "json_getitem obj key")
    (auto simp: post_lift json_getitem_def split: json.splits option.splits)

lemma post_setitem_lift:
  "post (py_lift (json_setitem obj key v)) QN QE w =
     ((\<forall>kvs. obj = JObj kvs \<longrightarrow> QN (JObj (AList.update key v kvs)) w) \<and>
      (\<forall>e. json_setitem obj key v = Inl e \<longrightarrow> QE e w))"
  by (cases "json_setitem obj key v")
    (auto simp: post_lift json_setitem_def split: json.splits)

lemma post_fspath_lift:
  "post (py_lift (os_fspath v)) QN QE w =
     ((\<forall>s. v = JStr s \<longrightarrow> QN s w) \<and> (\<forall>e. os_fspath v = Inl e \<longrightarrow> QE e w))"
  by (cases "os_fspath v") (auto simp: post_lift os_fspath_def split: json.splits)

lemma post_deref_iff:
  "post (py_deref r) QN QE w =
     ((r < length (heap w) \<longrightarrow> QN (heap w ! r) w) \<and>
      (\<not> r < length (heap w) \<longrightarrow> QE (NameError ''name is not defined'') w))"
  by (simp add: post_deref)

lemmas post_rules = post_return post_raise post_bind post_var post_assign post_new
  post_deref_iff post_store post_isdir post_write_file post_json_load post_nib_load
  post_getitem_lift post_setitem_lift post_fspath_lift

lemma join_work_dir_neq:
  "os_path_join work_dir s \<noteq> env_config_path"
  "os_path_join work_dir s \<noteq> model_config_path"
  "os_path_join work_dir s \<noteq> model_def_path"
  by (cases s; simp add: os_path_join_def work_dir_def env_config_path_def model_config_path_def
      model_def_path_def)+

lemma out_paths:
  "env_config_filepath = ''./temp_work_dir/environment_maisi_diff_model.json''"
  "model_config_filepath = ''./temp_work_dir/config_maisi_diff_model.json''"
  "model_def_filepath = ''./temp_work_dir/config_maisi.json''"
  by (simp_all add: env_config_filepath_def model_config_filepath_def model_def_filepath_def
      os_path_join_def work_dir_def)

lemma in_paths:
  "env_config_path = ''./configs/environment_maisi_diff_model.json''"
  "model_config_path = ''./configs/config_maisi_diff_model.json''"
  "model_def_path = ''./configs/config_maisi.json''"
  by (simp_all add: env_config_path_def model_config_path_def model_def_path_def)

lemmas cell11_unfold = cell11_def post_rules post_makedirs_exist_ok deepcopy_def py_getitem_def
  py_setitem_def prepend_work_dir_def makedirs_of_def json_dump_def py_setitem_in_def Let_def

lemma cell11_success:
  "post cell11 (\<lambda>_ w'.
      \<exists>kvs s1 s2 s3 kvm inner kvd inner'.
        map_of (fs w) env_config_path = Some (JsonFile (JObj kvs))
      \<and> map_of kvs ''embedding_base_dir'' = Some (JStr s1)
      \<and> map_of kvs ''model_dir'' = Some (JStr s2)
      \<and> map_of kvs ''output_dir'' = Some (JStr s3)
      \<and> map_of (fs w) model_config_path = Some (JsonFile (JObj kvm))
      \<and> map_of kvm ''diffusion_unet_train'' = Some (JObj inner)
      \<and> map_of (fs w) model_def_path = Some (JsonFile (JObj kvd))
      \<and> map_of kvd ''autoencoder_def'' = Some (JObj inner')
      \<and> w' = cell11_result w kvs s1 s2 s3 kvm inner kvd inner')
    (\<lambda>_ _. True) w"
  apply (simp add: cell11_unfold nth_append update_conv' cell11_result_def env_patched_def
     nested_patched_def max_epochs_def list_update_append del: sort_keys_json.simps)
  done

lemma map_of_filter_first:
  "map_of xs k = (case filter (\<lambda>p. fst p = k) xs of [] \<Rightarrow> None | p # _ \<Rightarrow> Some (snd p))"
  by (induction xs) auto

lemma map_of_sort_key_fst: "map_of (sort_key fst xs) k = map_of xs k"
  by (simp add: map_of_filter_first [of "sort_key fst xs"] map_of_filter_first [of xs]
      sort_key_stable)

lemma map_of_map_value:
  "map_of (map (\<lambda>(k, v). (k, f v)) xs) k = map_option f (map_of xs k)"
  by (induction xs) auto

lemma sort_keys_json_fields:
  "\<exists>kvs'. sort_keys_json (JObj kvs) = JObj kvs' \<and>
      (\<forall>k. map_of kvs' k = map_option sort_keys_json (map_of kvs k))"
  by (simp add: map_of_sort_key_fst map_of_map_value)

lemma cell11_result_of_success:
  assumes "fst (cell11 w) = Inr ()"
  shows "\<exists>kvs s1 s2 s3 kvm inner kvd inner'.
        map_of (fs w) env_config_path = Some (JsonFile (JObj kvs))
      \<and> map_of kvs ''embedding_base_dir'' = Some (JStr s1)
      \<and> map_of kvs ''model_dir'' = Some (JStr s2)
      \<and> map_of kvs ''output_dir'' = Some (JStr s3)
      \<and> map_of (fs w) model_config_path = Some (JsonFile (JObj kvm))
      \<and> map_of kvm ''diffusion_unet_train'' = Some (JObj inner)
      \<and> map_of (fs w) model_def_path = Some (JsonFile (JObj kvd))
      \<and> map_of kvd ''autoencoder_def'' = Some (JObj inner')
      \<and> snd (cell11 w) = cell11_result w kvs s1 s2 s3 kvm inner kvd inner'"
  using post_partial [OF cell11_success assms] .

lemma join_work_dir_neq':
  "env_config_path \<noteq> os_path_join work_dir s"
  "model_config_path \<noteq> os_path_join work_dir s"
  "model_def_path \<noteq> os_path_join work_dir s"
  using join_work_dir_neq [of s] by auto

lemma paths_distinct:
  "distinct [env_config_path, model_config_path, model_def_path,
             env_config_filepath, model_config_filepath, model_def_filepath]"
  by (simp add: in_paths out_paths)

lemma paths_neq:
  "env_config_filepath \<noteq> env_config_path" "model_config_filepath \<noteq> env_config_path"
  "model_def_filepath \<noteq> env_config_path"
  "env_config_filepath \<noteq> model_config_path" "model_config_filepath \<noteq> model_config_path"
  "model_def_filepath \<noteq> model_config_path"
  "env_config_filepath \<noteq> model_def_path" "model_config_filepath \<noteq> model_def_path"
  "model_def_filepath \<noteq> model_def_path"
  "env_config_path \<noteq> env_config_filepath" "env_config_path \<noteq> model_config_filepath"
  "env_config_path \<noteq> model_def_filepath"
  "model_config_path \<noteq> env_config_filepath" "model_config_path \<noteq> model_config_filepath"
  "model_config_path \<noteq> model_def_filepath"
  "model_def_path \<noteq> env_config_filepath" "model_def_path \<noteq> model_config_filepath"
  "model_def_path \<noteq> model_def_filepath"
  "env_config_filepath \<noteq> model_config_filepath" "env_config_filepath \<noteq> model_def_filepath"
  "model_config_filepath \<noteq> env_config_filepath" "model_config_filepath \<noteq> model_def_filepath"
  "model_def_filepath \<noteq> env_config_filepath" "model_def_filepath \<noteq> model_config_filepath"
  by (simp_all add: in_paths out_paths)

lemma written_env_config:
  assumes "snd (cell11 w) = cell11_result w kvs s1 s2 s3 kvm inner kvd inner'"
  shows "\<exists>e'. map_of (fs (snd (cell11 w))) env_config_filepath = Some (JsonFile (JObj e'))
    \<and> (\<forall>k. k \<notin> {''data_base_dir'', ''embedding_base_dir'', ''json_data_list'', ''model_dir'',
                 ''output_dir'', ''trained_autoencoder_path''} \<longrightarrow>
            map_of e' k = map_option sort_keys_json (map_of kvs k))
    \<and> map_of e' ''data_base_dir'' = Some (JStr dataroot_dir)
    \<and> map_of e' ''embedding_base_dir'' = Some (JStr (os_path_join work_dir s1))
    \<and> map_of e' ''json_data_list'' = Some (JStr datalist_file)
    \<and> map_of e' ''model_dir'' = Some (JStr (os_path_join work_dir s2))
    \<and> map_of e' ''output_dir'' = Some (JStr (os_path_join work_dir s3))
    \<and> map_of e' ''trained_autoencoder_path'' = Some JNull"
proof -
  define upd where "upd =
     AList.update ''trained_autoencoder_path'' JNull
       (AList.update ''output_dir'' (JStr (os_path_join work_dir s3))
       (AList.update ''model_dir'' (JStr (os_path_join work_dir s2))
       (AList.update ''json_data_list'' (JStr datalist_file)
       (AList.update ''embedding_base_dir'' (JStr (os_path_join work_dir s1))
       (AList.update ''data_base_dir'' (JStr dataroot_dir) kvs)))))"
  obtain e' where e': "sort_keys_json (JObj upd) = JObj e'"
    and look: "\<And>k. map_of e' k = map_option sort_keys_json (map_of upd k)"
    using sort_keys_json_fields [of upd] by blast
  have "map_of (fs (snd (cell11 w))) env_config_filepath = Some (JsonFile (JObj e'))"
    unfolding assms
    by (simp add: cell11_result_def Let_def update_conv' paths_neq env_patched_def
        upd_def [symmetric] e' del: sort_keys_json.simps)
  moreover have "\<forall>k. k \<notin> {''data_base_dir'', ''embedding_base_dir'', ''json_data_list'',
        ''model_dir'', ''output_dir'', ''trained_autoencoder_path''} \<longrightarrow>
      map_of e' k = map_option sort_keys_json (map_of kvs k)"
    by (simp add: look upd_def update_conv')
  moreover have "map_of e' ''data_base_dir'' = Some (JStr dataroot_dir)"
    "map_of e' ''embedding_base_dir'' = Some (JStr (os_path_join work_dir s1))"
    "map_of e' ''json_data_list'' = Some (JStr datalist_file)"
    "map_of e' ''model_dir'' = Some (JStr (os_path_join work_dir s2))"
    "map_of e' ''output_dir'' = Some (JStr (os_path_join work_dir s3))"
    "map_of e' ''trained_autoencoder_path'' = Some JNull"
    by (simp_all add: look upd_def update_conv')
  ultimately show ?thesis by blast
qed

lemma sorted_nested_patched:
  "\<exists>m'. sort_keys_json (nested_patched kvm key1 inner key2 (JInt i)) = JObj m'
    \<and> (\<forall>k. k \<noteq> key1 \<longrightarrow> map_of m' k = map_option sort_keys_json (map_of kvm k))
    \<and> (\<exists>t'. map_of m' key1 = Some (JObj t')
          \<and> (\<forall>k. k \<noteq> key2 \<longrightarrow> map_of t' k = map_option sort_keys_json (map_of inner k))
          \<and> map_of t' key2 = Some (JInt i))"
proof -
  let ?inner = "AList.update key2 (JInt i) inner"
  let ?outer = "AList.update key1 (JObj ?inner) kvm"
  obtain m' where m': "sort_keys_json (JObj ?outer) = JObj m'"
    and look: "\<And>k. map_of m' k = map_option sort_keys_json (map_of ?outer k)"
    using sort_keys_json_fields [of ?outer] by blast
  obtain t' where t': "sort_keys_json (JObj ?inner) = JObj t'"
    and look': "\<And>k. map_of t' k = map_option sort_keys_json (map_of ?inner k)"
    using sort_keys_json_fields [of ?inner] by blast
  have "map_of m' key1 = Some (JObj t')"
    by (simp add: look update_conv' t' del: sort_keys_json.simps)
  moreover have "\<forall>k. k \<noteq> key1 \<longrightarrow> map_of m' k = map_option sort_keys_json (map_of kvm k)"
    by (simp add: look update_conv')
  moreover have "\<forall>k. k \<noteq> key2 \<longrightarrow> map_of t' k = map_option sort_keys_json (map_of inner k)"
    by (simp add: look' update_conv')
  moreover have "map_of t' key2 = Some (JInt i)"
    by (simp add: look' update_conv')
  ultimately show ?thesis
    using m' by (auto simp: nested_patched_def simp del: sort_keys_json.simps)
qed

lemma written_model_files:
  assumes "snd (cell11 w) = cell11_result w kvs s1 s2 s3 kvm inner kvd inner'"
  shows "map_of (fs (snd (cell11 w))) model_config_filepath =
           Some (JsonFile (sort_keys_json
             (nested_patched kvm ''diffusion_unet_train'' inner ''n_epochs'' (JInt 2))))"
    and "map_of (fs (snd (cell11 w))) model_def_filepath =
           Some (JsonFile (sort_keys_json
             (nested_patched kvd ''autoencoder_def'' inner' ''num_splits'' (JInt 4))))"
  unfolding assms
  by (simp_all add: cell11_result_def Let_def update_conv' paths_neq del: sort_keys_json.simps)

subsection \<open>What every statement leaves alone\<close>

lemma log_ok_refl: "log_ok w w"
  by (simp add: log_ok_def)

lemma log_ok_trans: "log_ok w w' \<Longrightarrow> log_ok w' w'' \<Longrightarrow> log_ok w w''"
  by (auto simp: log_ok_def)

lemma log_ok_same: "fs_log w' = fs_log w \<Longrightarrow> log_ok w w'"
  by (simp add: log_ok_def)

lemma tidy_return: "tidy (py_return x)"
  by (simp add: tidy_def py_return_def log_ok_refl)

lemma tidy_raise: "tidy (py_raise e)"
  by (simp add: tidy_def py_raise_def log_ok_refl)

lemma tidy_lift: "tidy (py_lift r)"
  by (cases r) (simp_all add: py_lift_def tidy_return tidy_raise)

lemma tidy_bind: "tidy m \<Longrightarrow> (\<And>x. tidy (f x)) \<Longrightarrow> tidy (py_bind m f)"
  unfolding tidy_def py_bind_def
  by (auto split: prod.splits sum.splits intro: log_ok_trans)
    (metis snd_conv log_ok_trans)+

lemma tidy_for: "(\<And>x. tidy (body x)) \<Longrightarrow> tidy (py_for xs body)"
  by (induction xs) (simp_all add: tidy_return tidy_bind)

lemma tidy_if: "tidy m \<Longrightarrow> tidy n \<Longrightarrow> tidy (if b then m else n)"
  by simp

lemma tidy_state_only:
  assumes "\<And>w. (snd (m w))\<lparr>heap := heap w\<rparr> = w"
  shows "tidy m"
  unfolding tidy_def
proof (intro allI)
  fix w
  let ?w' = "snd (m w)"
  have "environ (?w'\<lparr>heap := heap w\<rparr>) = environ ?w'"
    "popen_calls (?w'\<lparr>heap := heap w\<rparr>) = popen_calls ?w'"
    "fs_log (?w'\<lparr>heap := heap w\<rparr>) = fs_log ?w'"
    by simp_all
  then show "environ ?w' = environ w \<and> popen_calls ?w' = popen_calls w \<and> log_ok w ?w'"
    unfolding assms by (simp add: log_ok_def)
qed

lemma tidy_var: "tidy (py_var x)"
  by (rule tidy_state_only) (simp add: py_var_def)

lemma tidy_new: "tidy (py_new obj)"
  by (rule tidy_state_only) (simp add: py_new_def)

lemma tidy_deref: "tidy (py_deref r)"
  by (rule tidy_state_only) (simp add: py_deref_def)

lemma tidy_store: "tidy (py_store r obj)"
  by (rule tidy_state_only) (simp add: py_store_def)

lemma tidy_isdir: "tidy (os_path_isdir p)"
  by (rule tidy_state_only) (simp add: os_path_isdir_def)

lemma tidy_nib_load: "tidy (nib_load p)"
  by (rule tidy_state_only) (simp add: nib_load_def split: option.splits entry.splits)

lemma tidy_list_gz_files: "tidy (list_gz_files p)"
  by (rule tidy_state_only) (simp add: list_gz_files_def)

lemma tidy_json_load: "tidy (json_load p)"
  by (rule tidy_state_only) (simp add: json_load_def py_new_def split: option.splits entry.splits)

lemma tidy_makedirs: "tidy (os_makedirs p b)"
  by (auto simp: tidy_def os_makedirs_def log_ok_def split: option.splits entry.splits)

lemma tidy_write_file: "notebook_event (Wrote p c) \<Longrightarrow> tidy (write_file p c)"
  by (auto simp: tidy_def write_file_def log_ok_def split: option.splits entry.splits)

lemma tidy_assign:
  assumes "tidy e"
    and "\<And>f w. environ (u f w) = environ w \<and> popen_calls (u f w) = popen_calls w \<and>
           fs_log (u f w) = fs_log w"
  shows "tidy (assign u e)"
  unfolding assign_def
proof (rule tidy_bind [OF assms(1)])
  fix r
  show "tidy (\<lambda>w. (Inr r, u (\<lambda>_. r) w))"
    using assms(2) by (simp add: tidy_def log_ok_def)
qed

lemma tidy_getitem: "tidy (py_getitem r k)"
  by (simp add: py_getitem_def tidy_bind tidy_deref tidy_lift)

lemma tidy_setitem: "tidy (py_setitem r k v)"
  by (simp add: py_setitem_def tidy_bind tidy_deref tidy_lift tidy_store)

lemma tidy_setitem_in: "tidy (py_setitem_in r k1 k2 v)"
  by (simp add: py_setitem_in_def tidy_bind tidy_deref tidy_lift tidy_store)

lemma tidy_deepcopy: "tidy (deepcopy r)"
  by (simp add: deepcopy_def tidy_bind tidy_deref tidy_new)

lemma tidy_prepend_work_dir: "tidy (prepend_work_dir r k)"
  by (simp add: prepend_work_dir_def tidy_bind tidy_getitem tidy_lift tidy_setitem)

lemma tidy_makedirs_of: "tidy (makedirs_of r k)"
  by (simp add: makedirs_of_def tidy_bind tidy_getitem tidy_lift tidy_makedirs)

lemma tidy_cell3: "tidy cell3"
  by (simp add: tidy_def cell3_def log_ok_def)

lemma tidy_cell9: "tidy (cell9 P)"
  unfolding cell9_def Let_def
  by (intro tidy_bind tidy_isdir tidy_if tidy_makedirs tidy_return tidy_lift tidy_for)
    (auto simp: json_dump_def nib_save_def sim_datalist_def split: prod.splits
       intro!: tidy_write_file tidy_bind tidy_lift)

lemma tidy_create_json_files: "tidy (create_json_files gz_files)"
  unfolding create_json_files_def Let_def json_dump_def
  by (intro tidy_for tidy_bind tidy_nib_load tidy_write_file) simp

lemma tidy_cell16: "tidy cell16"
  unfolding cell16_def
  by (intro tidy_bind tidy_var tidy_getitem tidy_lift tidy_list_gz_files tidy_create_json_files)

lemma mkdir_log_events: "list_all notebook_event (mkdir_log p f)"
  by (simp add: mkdir_log_def)

lemma cell11_all_outcomes:
  "post cell11
     (\<lambda>_ w'. environ w' = environ w \<and> popen_calls w' = popen_calls w \<and> log_ok w w')
     (\<lambda>_ w'. environ w' = environ w \<and> popen_calls w' = popen_calls w \<and> log_ok w w') w"
  by (simp add: cell11_unfold log_ok_def mkdir_log_events)

lemma post_total: "post m Q Q' w \<Longrightarrow> (\<And>x w'. Q x w' = R w') \<Longrightarrow> (\<And>e w'. Q' e w' = R w') \<Longrightarrow> R (snd (m w))"
  by (cases "m w") (auto simp: post_def split: sum.splits stop.splits)

lemma tidy_cell11: "tidy cell11"
  unfolding tidy_def
  by (intro allI, rule post_total [OF cell11_all_outcomes]) simp_all

subsection \<open>The cells in sequence\<close>





lemma run_torchrun_step:
  "environ (snd (run_torchrun P m a n w)) = environ w
   \<and> popen_calls (snd (run_torchrun P m a n w)) =
       popen_calls w @ [(torchrun_command m a n, torchrun_env w)]
   \<and> fs_log (snd (run_torchrun P m a n w)) = fs_log w"
proof (cases "spawn P (torchrun_command m a n) (torchrun_env w) (fs w)")
  case None
  then show ?thesis by (simp add: run_torchrun_not_spawned)
next
  case (Some p)
  from run_torchrun_spawned [OF Some] show ?thesis by auto
qed

lemma stage_step:
  "step_ok (run_torchrun P m [''--env_config'', env_config_filepath, ''--model_config'',
      model_config_filepath, ''--model_def'', model_def_filepath] 1) (\<lambda>env. [stage_call m env])"
  by (simp add: step_ok_def run_torchrun_step log_ok_same)
    (simp add: torchrun_command_def torchrun_env_def stage_call_def str_int_1)

lemma tidy_step: "tidy c \<Longrightarrow> step_ok c (\<lambda>_. [])"
  by (simp add: tidy_def step_ok_def)

lemma py_seq_steps:
  "list_all2 step_ok cs Ls \<Longrightarrow>
   \<exists>k\<le>length cs.
     environ (snd (py_seq cs w)) = environ w
   \<and> popen_calls (snd (py_seq cs w)) =
       popen_calls w @ concat (map (\<lambda>L. L (environ w)) (take k Ls))
   \<and> log_ok w (snd (py_seq cs w))
   \<and> (fst (py_seq cs w) = Inr () \<longrightarrow> k = length cs)"
proof (induction cs Ls arbitrary: w rule: list_all2_induct)
  case Nil
  then show ?case by (simp add: py_return_def log_ok_refl)
next
  case (Cons c cs L Ls)
  obtain r w1 where c: "c w = (r, w1)" by (cases "c w")
  from Cons.hyps(1) c have s1: "environ w1 = environ w"
    "popen_calls w1 = popen_calls w @ L (environ w)" "log_ok w w1"
    by (auto simp: step_ok_def dest: spec [of _ w])
  show ?case
  proof (cases r)
    case (Inl e)
    then have "py_seq (c # cs) w = (Inl e, w1)"
      using c by (simp add: py_bind_def)
    then show ?thesis
      using s1 by (intro exI [of _ 1]) simp
  next
    case (Inr u)
    then have eq: "py_seq (c # cs) w = py_seq cs w1"
      using c by (simp add: py_bind_def)
    from Cons.IH [of w1] obtain k where k: "k \<le> length cs"
      "environ (snd (py_seq cs w1)) = environ w1"
      "popen_calls (snd (py_seq cs w1)) =
         popen_calls w1 @ concat (map (\<lambda>L. L (environ w1)) (take k Ls))"
      "log_ok w1 (snd (py_seq cs w1))"
      "fst (py_seq cs w1) = Inr () \<longrightarrow> k = length cs"
      by blast
    show ?thesis
      using k s1 eq by (intro exI [of _ "Suc k"]) (auto intro: log_ok_trans)
  qed
qed

lemma notebook_steps:
  "list_all2 step_ok
     [cell3, cell5, cell7, cell9 P, cell11, cell12, cell14 P, cell16, cell18 P, cell20 P]
     [\<lambda>_. [], \<lambda>_. [], \<lambda>_. [], \<lambda>_. [], \<lambda>_. [], \<lambda>_. [],
      \<lambda>env. [stage_call ''scripts.diff_model_create_training_data'' env], \<lambda>_. [],
      \<lambda>env. [stage_call ''scripts.diff_model_train'' env],
      \<lambda>env. [stage_call ''scripts.diff_model_infer'' env]]"
  by (simp add: tidy_step tidy_cell3 tidy_cell9 tidy_cell11 tidy_cell16 tidy_return
      cell5_def cell7_def cell12_def cell14_def cell18_def cell20_def num_gpus_def stage_step)

lemma stages_reached:
  assumes "k \<le> 10"
  shows "\<exists>j\<le>3. concat (map (\<lambda>L. L env) (take k
     [\<lambda>_. [], \<lambda>_. [], \<lambda>_. [], \<lambda>_. [], \<lambda>_. [], \<lambda>_. [],
      \<lambda>env. [stage_call ''scripts.diff_model_create_training_data'' env], \<lambda>_. [],
      \<lambda>env. [stage_call ''scripts.diff_model_train'' env],
      \<lambda>env. [stage_call ''scripts.diff_model_infer'' env]])) =
    take j [stage_call ''scripts.diff_model_create_training_data'' env,
            stage_call ''scripts.diff_model_train'' env,
            stage_call ''scripts.diff_model_infer'' env] \<and> (k = 10 \<longrightarrow> j = 3)"
proof -
  from assms consider "k < 7" | "k = 7 \<or> k = 8" | "k = 9" | "k = 10" by linarith
  then show ?thesis
  proof cases
    case 1
    then have "k = 0 \<or> k = 1 \<or> k = 2 \<or> k = 3 \<or> k = 4 \<or> k = 5 \<or> k = 6" by linarith
    then show ?thesis by (intro exI [of _ 0]) auto
  next
    case 2
    then show ?thesis by (intro exI [of _ 1]) auto
  next
    case 3
    then show ?thesis by (intro exI [of _ 2]) auto
  next
    case 4
    then show ?thesis by (intro exI [of _ 3]) auto
  qed
qed

lemma notebook_outcome:
  "\<exists>j\<le>3. environ (snd (notebook P w)) = environ w
     \<and> popen_calls (snd (notebook P w)) =
         popen_calls w @ take j [stage_call ''scripts.diff_model_create_training_data'' (environ w),
                                 stage_call ''scripts.diff_model_train'' (environ w),
                                 stage_call ''scripts.diff_model_infer'' (environ w)]
     \<and> log_ok w (snd (notebook P w))
     \<and> (fst (notebook P w) = Inr () \<longrightarrow> j = 3)"
proof -
  let ?cs = "[cell3, cell5, cell7, cell9 P, cell11, cell12, cell14 P, cell16, cell18 P, cell20 P]"
  let ?Ls = "[\<lambda>_. [], \<lambda>_. [], \<lambda>_. [], \<lambda>_. [], \<lambda>_. [], \<lambda>_. [],
      \<lambda>env. [stage_call ''scripts.diff_model_create_training_data'' env], \<lambda>_. [],
      \<lambda>env. [stage_call ''scripts.diff_model_train'' env],
      \<lambda>env. [stage_call ''scripts.diff_model_infer'' env]]"
  have len: "length ?cs = 10" by simp
  from py_seq_steps [OF notebook_steps, of P w] obtain k where k: "k \<le> length ?cs"
    and env: "environ (snd (py_seq ?cs w)) = environ w"
    and calls: "popen_calls (snd (py_seq ?cs w)) =
       popen_calls w @ concat (map (\<lambda>L. L (environ w)) (take k ?Ls))"
    and log: "log_ok w (snd (py_seq ?cs w))"
    and full: "fst (py_seq ?cs w) = Inr () \<longrightarrow> k = length ?cs"
    by blast
  from k len have k10: "k \<le> 10" by (simp only:)
  from stages_reached [OF k10, of "environ w"] obtain j where j: "j \<le> 3"
    and eq: "concat (map (\<lambda>L. L (environ w)) (take k ?Ls)) =
      take j [stage_call ''scripts.diff_model_create_training_data'' (environ w),
              stage_call ''scripts.diff_model_train'' (environ w),
              stage_call ''scripts.diff_model_infer'' (environ w)]"
    and j3: "k = 10 \<longrightarrow> j = 3"
    by blast
  have nb: "notebook P w = py_seq ?cs w"
    by (simp only: notebook_def)
  have "fst (notebook P w) = Inr () \<longrightarrow> j = 3"
    using full j3 len unfolding nb by (simp only:) blast
  moreover have "popen_calls (snd (notebook P w)) =
         popen_calls w @ take j [stage_call ''scripts.diff_model_create_training_data'' (environ w),
                                 stage_call ''scripts.diff_model_train'' (environ w),
                                 stage_call ''scripts.diff_model_infer'' (environ w)]"
    unfolding nb using calls eq by (simp only:)
  ultimately show ?thesis
    using j env log unfolding nb by blast
qed

subsection \<open>The sample run\<close>

lemma demo_cell9: "py_seq [cell3, cell5, cell7, cell9 demo_platform] demo_world = (Inr (), demo_after_cell9)"
  by code_simp

lemma demo_cell11: "py_seq [cell11, cell12] demo_after_cell9 = (Inr (), demo_after_cell11)"
  by code_simp

lemma demo_cell16: "cell16 demo_after_cell14 = (Inr (), demo_after_cell16)"
  by code_simp

lemma demo_stage:
  assumes "popen_calls w = calls" "timeline w = evs" "environ w = [(''PATH'', ''/usr/bin'')]"
  shows "run_torchrun demo_platform m
      [''--env_config'', env_config_filepath, ''--model_config'', model_config_filepath,
       ''--model_def'', model_def_filepath] num_gpus w =
     (Inr (),
      w\<lparr>popen_calls := calls @ [demo_launch m], timeline := evs @ demo_output,
        fs := effect (demo_proc [''torchrun'', ''-m'', m]) (fs w)\<rparr>)"
proof -
  let ?a = "[''--env_config'', env_config_filepath, ''--model_config'', model_config_filepath,
       ''--model_def'', model_def_filepath]"
  let ?p = "demo_proc (torchrun_command m ?a num_gpus)"
  have sp: "spawn demo_platform (torchrun_command m ?a num_gpus) (torchrun_env w) (fs w) = Some ?p"
    by (simp add: demo_platform_def demo_spawn_def)
  have ne: "Line [] \<notin> set (pending ?p)"
    by (simp add: demo_proc_def ustr_def)
  have eff: "effect ?p = effect (demo_proc [''torchrun'', ''-m'', m])"
    by (simp add: demo_proc_def torchrun_command_def num_gpus_def str_int_1 out_paths)
  have ev: "streamed (lines_read (pending ?p)) @ loop_events ?p @
      (if loop_hangs ?p then [] else final_events ?p) = demo_output"
    by (simp add: demo_proc_def streamed_def loop_events_def loop_hangs_def final_events_def
        demo_output_def strip_def isspace_def ustr_def)
  have out: "run_outcome ?p = Inr ()"
    by (simp add: demo_proc_def run_outcome_def loop_hangs_def)
  have cmd: "(torchrun_command m ?a num_gpus, torchrun_env w) = demo_launch m"
    using assms(3)
    by (simp add: torchrun_command_def torchrun_env_def demo_launch_def num_gpus_def str_int_1
        out_paths)
  show ?thesis
    unfolding run_torchrun_exact [OF sp ne] ev out eff cmd using assms by simp
qed

lemmas demo_worlds = demo_after_cell20_def demo_after_cell18_def demo_after_cell16_def
  demo_after_cell14_def demo_after_cell11_def demo_after_cell9_def demo_world_def

lemma demo_cell14: "cell14 demo_platform demo_after_cell11 = (Inr (), demo_after_cell14)"
proof -
  have "cell14 demo_platform demo_after_cell11 =
      (Inr (),
       demo_after_cell11\<lparr>popen_calls := [] @ [demo_launch ''scripts.diff_model_create_training_data''],
         timeline := [] @ demo_output,
         fs := effect (demo_proc [''torchrun'', ''-m'', ''scripts.diff_model_create_training_data''])
                 (fs demo_after_cell11)\<rparr>)"
    unfolding cell14_def Let_def by (rule demo_stage) (simp_all add: demo_worlds)
  also have "\<dots> = (Inr (), demo_after_cell14)"
    by (simp add: demo_worlds demo_proc_def in_paths)
  finally show ?thesis .
qed

lemma demo_cell18: "cell18 demo_platform demo_after_cell16 = (Inr (), demo_after_cell18)"
proof -
  have "cell18 demo_platform demo_after_cell16 =
      (Inr (),
       demo_after_cell16\<lparr>popen_calls := [demo_launch ''scripts.diff_model_create_training_data''] @
           [demo_launch ''scripts.diff_model_train''],
         timeline := demo_output @ demo_output,
         fs := effect (demo_proc [''torchrun'', ''-m'', ''scripts.diff_model_train''])
                 (fs demo_after_cell16)\<rparr>)"
    unfolding cell18_def Let_def by (rule demo_stage) (simp_all add: demo_worlds)
  also have "\<dots> = (Inr (), demo_after_cell18)"
    by (simp add: demo_worlds demo_proc_def in_paths)
  finally show ?thesis .
qed

lemma demo_cell20: "cell20 demo_platform demo_after_cell18 = (Inr (), demo_after_cell20)"
proof -
  have "cell20 demo_platform demo_after_cell18 =
      (Inr (),
       demo_after_cell18\<lparr>popen_calls := [demo_launch ''scripts.diff_model_create_training_data'',
           demo_launch ''scripts.diff_model_train''] @ [demo_launch ''scripts.diff_model_infer''],
         timeline := (demo_output @ demo_output) @ demo_output,
         fs := effect (demo_proc [''torchrun'', ''-m'', ''scripts.diff_model_infer''])
                 (fs demo_after_cell18)\<rparr>)"
    unfolding cell20_def Let_def by (rule demo_stage) (simp_all add: demo_worlds)
  also have "\<dots> = (Inr (), demo_after_cell20)"
    by (simp add: demo_worlds demo_proc_def in_paths)
  finally show ?thesis .
qed



lemma py_seq_append:
  "py_seq (cs @ ds) w =
     (case py_seq cs w of (Inl e, w') \<Rightarrow> (Inl e, w') | (Inr u, w') \<Rightarrow> py_seq ds w')"
  by (induction cs arbitrary: w)
    (simp_all add: py_return_def py_bind_def split: prod.splits sum.splits)

lemma notebook_demo: "notebook demo_platform demo_world = (Inr (), demo_after_cell20)"
proof -
  have "notebook demo_platform demo_world =
      py_seq ([cell3, cell5, cell7, cell9 demo_platform] @ [cell11, cell12] @
        [cell14 demo_platform, cell16, cell18 demo_platform, cell20 demo_platform]) demo_world"
    by (simp add: notebook_def)
  also have "\<dots> = py_seq [cell14 demo_platform, cell16, cell18 demo_platform, cell20 demo_platform]
      demo_after_cell11"
    by (simp only: py_seq_append demo_cell9 demo_cell11 prod.case sum.case)
  also have "\<dots> = (Inr (), demo_after_cell20)"
    by (simp add: py_bind_def py_return_def demo_cell14 demo_cell16 demo_cell18 demo_cell20)
  finally show ?thesis .
qed



section \<open>The claims\<close>

text \<open>
  C3. For every module name, argument list and number of GPUs, \<open>run_torchrun\<close> calls
  \<^verbatim>\<open>Popen\<close> once, with the command \<^verbatim>\<open>torchrun --nproc_per_node\<close> \<open>str(num_gpus)\<close>
  \<^verbatim>\<open>--nnodes 1 -m\<close> \<open>module\<close> followed by the module's arguments, and with an
  environment that is the caller's except that \<^verbatim>\<open>OMP_NUM_THREADS\<close> is \<^verbatim>\<open>"1"\<close>; the
  caller's own environment is left as it was.
\<close>

theorem run_torchrun_launches_command:
  "popen_calls (snd (run_torchrun P module_name module_args n w)) =
     popen_calls w @
       [([''torchrun'', ''--nproc_per_node'', str_int n, ''--nnodes'', ''1'', ''-m'', module_name]
           @ module_args,
         AList.update ''OMP_NUM_THREADS'' ''1'' (environ w))]
   \<and> map_of (AList.update ''OMP_NUM_THREADS'' ''1'' (environ w)) =
       (map_of (environ w))(''OMP_NUM_THREADS'' \<mapsto> ''1'')
   \<and> environ (snd (run_torchrun P module_name module_args n w)) = environ w"
proof (cases "spawn P (torchrun_command module_name module_args n) (torchrun_env w) (fs w)")
  case None
  show ?thesis
    by (simp add: run_torchrun_not_spawned [OF None] update_conv')
      (simp add: torchrun_command_def torchrun_env_def)
next
  case (Some p)
  from run_torchrun_spawned [OF Some] obtain r out where
    "run_torchrun P module_name module_args n w =
       (r,
        w\<lparr>popen_calls :=
            popen_calls w @ [(torchrun_command module_name module_args n, torchrun_env w)],
          timeline := timeline w @ out, fs := effect p (fs w)\<rparr>)"
    by blast
  then show ?thesis
    by (simp add: update_conv') (simp add: torchrun_command_def torchrun_env_def)
qed

theorem run_torchrun_launches_command_witness:
  "popen_calls (snd (run_torchrun demo_platform ''scripts.diff_model_train''
      [''--env_config'', ''e.json''] 2 demo_world)) =
     [([''torchrun'', ''--nproc_per_node'', ''2'', ''--nnodes'', ''1'', ''-m'',
        ''scripts.diff_model_train'', ''--env_config'', ''e.json''],
       [(''PATH'', ''/usr/bin''), (''OMP_NUM_THREADS'', ''1'')])]"
  using run_torchrun_launches_command
    [of demo_platform "''scripts.diff_model_train''" "[''--env_config'', ''e.json'']" 2 demo_world]
  by (simp add: demo_world_def str_int_def digit_char_def)

text \<open>
  C5. When cell 9 runs through, the file \<^verbatim>\<open>sim_datalist.json\<close> of the work directory
  holds the datalist, whose training list names \<^verbatim>\<open>tr_image_001.nii.gz\<close> and
  \<^verbatim>\<open>tr_image_002.nii.gz\<close> and nothing else, and under each of the two names the
  data-root directory holds a NIfTI image of shape \<open>sim_dim\<close> = (224, 224, 96) whose
  affine is the 4 by 4 identity.
\<close>

theorem cell9_datalist_and_images:
  assumes "fst (cell9 P w) = Inr ()"
  shows "sim_datalist = JObj [(''training'', JArr [JObj [(''image'', JStr ''tr_image_001.nii.gz'')],
                                                  JObj [(''image'', JStr ''tr_image_002.nii.gz'')]])]
    \<and> sim_dim = (224, 224, 96)
    \<and> map_of (fs (snd (cell9 P w))) (os_path_join work_dir ''sim_datalist.json'') = Some (JsonFile sim_datalist)
    \<and> (\<forall>name \<in> {''tr_image_001.nii.gz'', ''tr_image_002.nii.gz''}.
          \<exists>img. map_of (fs (snd (cell9 P w))) (os_path_join dataroot_dir name) = Some (NiftiFile img)
             \<and> img_shape img = [224, 224, 96]
             \<and> img_affine img = [[1, 0, 0, 0], [0, 1, 0, 0], [0, 0, 1, 0], [0, 0, 0, 1]])"
  using post_partial [OF cell9_post assms]
  by (simp add: sim_datalist_def sim_dim_def sim_image_shape np_eye_4 datalist_file_def)

theorem cell9_datalist_and_images_witness:
  "fst (cell9 demo_platform demo_world) = Inr ()
   \<and> map_of (fs (snd (cell9 demo_platform demo_world))) ''./temp_work_dir/sim_datalist.json'' =
       Some (JsonFile sim_datalist)
   \<and> (\<exists>img. map_of (fs (snd (cell9 demo_platform demo_world)))
                ''./temp_work_dir/sim_dataroot/tr_image_002.nii.gz'' = Some (NiftiFile img)
          \<and> img_shape img = [224, 224, 96]
          \<and> img_affine img = [[1, 0, 0, 0], [0, 1, 0, 0], [0, 0, 1, 0], [0, 0, 0, 1]])"
proof -
  have ok: "fst (cell9 demo_platform demo_world) = Inr ()"
    by code_simp
  from cell9_datalist_and_images [OF ok] show ?thesis
    using ok by (simp add: sim_paths os_path_join_def)
qed

text \<open>
  C8. The generation is deterministic, and the two training volumes are the same:
  every iteration of the loop of cell 9 makes a new generator with seed 42, so one
  and the same image is written under both names, in every run that gets through,
  whatever state the run started from.
\<close>

theorem cell9_deterministic:
  assumes "fst (cell9 P w1) = Inr ()" and "fst (cell9 P w2) = Inr ()"
  shows "\<exists>img. map_of (fs (snd (cell9 P w1))) (os_path_join dataroot_dir ''tr_image_001.nii.gz'') = Some (NiftiFile img)
             \<and> map_of (fs (snd (cell9 P w1))) (os_path_join dataroot_dir ''tr_image_002.nii.gz'') = Some (NiftiFile img)
             \<and> map_of (fs (snd (cell9 P w2))) (os_path_join dataroot_dir ''tr_image_001.nii.gz'') = Some (NiftiFile img)
             \<and> map_of (fs (snd (cell9 P w2))) (os_path_join dataroot_dir ''tr_image_002.nii.gz'') = Some (NiftiFile img)"
  using post_partial [OF cell9_post assms(1)] post_partial [OF cell9_post assms(2)]
  by simp

theorem cell9_deterministic_witness:
  "fst (cell9 demo_platform demo_world) = Inr ()
   \<and> fst (cell9 demo_platform (demo_world\<lparr>timeline := [Printed (ustr ''earlier output'')]\<rparr>)) = Inr ()
   \<and> (\<exists>img.
        map_of (fs (snd (cell9 demo_platform demo_world)))
          ''./temp_work_dir/sim_dataroot/tr_image_001.nii.gz'' = Some (NiftiFile img)
      \<and> map_of (fs (snd (cell9 demo_platform demo_world)))
          ''./temp_work_dir/sim_dataroot/tr_image_002.nii.gz'' = Some (NiftiFile img)
      \<and> map_of (fs (snd (cell9 demo_platform (demo_world\<lparr>timeline := [Printed (ustr ''earlier output'')]\<rparr>))))
          ''./temp_work_dir/sim_dataroot/tr_image_001.nii.gz'' = Some (NiftiFile img)
      \<and> map_of (fs (snd (cell9 demo_platform (demo_world\<lparr>timeline := [Printed (ustr ''earlier output'')]\<rparr>))))
          ''./temp_work_dir/sim_dataroot/tr_image_002.nii.gz'' = Some (NiftiFile img))"
proof -
  have ok1: "fst (cell9 demo_platform demo_world) = Inr ()"
    by code_simp
  have ok2: "fst (cell9 demo_platform (demo_world\<lparr>timeline := [Printed (ustr ''earlier output'')]\<rparr>)) = Inr ()"
    by code_simp
  from cell9_deterministic [OF ok1 ok2] show ?thesis
    using ok1 ok2 by (simp add: sim_paths os_path_join_def)
qed




text \<open>
  C2. When cell 11 runs through, it has loaded three dictionaries from the files
  under \<^verbatim>\<open>./configs\<close> and written three into the work directory, each with its keys
  sorted (\<open>sort_keys_json\<close> only reorders keys, so a value under it is the same
  value). The environment configuration written agrees with the one loaded on every
  key but \<^verbatim>\<open>data_base_dir\<close>, \<^verbatim>\<open>embedding_base_dir\<close>, \<^verbatim>\<open>json_data_list\<close>, \<^verbatim>\<open>model_dir\<close>,
  \<^verbatim>\<open>output_dir\<close> and \<^verbatim>\<open>trained_autoencoder_path\<close>, which hold the data root, the
  loaded directory joined to the work directory, the datalist file, the two other
  loaded directories joined to the work directory, and null. The model configuration
  written agrees with the one loaded on every key but \<^verbatim>\<open>diffusion_unet_train\<close>, whose
  dictionary agrees with the loaded one on every key but \<^verbatim>\<open>n_epochs\<close>, which is 2; the
  model definition likewise with \<^verbatim>\<open>autoencoder_def\<close> and \<^verbatim>\<open>num_splits\<close>, which is 4.
\<close>

theorem cell11_writes_patched_configs:
  assumes "fst (cell11 w) = Inr ()"
  shows "\<exists>e m d e' m' d'.
      map_of (fs w) env_config_path = Some (JsonFile (JObj e))
    \<and> map_of (fs w) model_config_path = Some (JsonFile (JObj m))
    \<and> map_of (fs w) model_def_path = Some (JsonFile (JObj d))
    \<and> map_of (fs (snd (cell11 w))) (os_path_join work_dir ''environment_maisi_diff_model.json'') =
        Some (JsonFile (JObj e'))
    \<and> map_of (fs (snd (cell11 w))) (os_path_join work_dir ''config_maisi_diff_model.json'') =
        Some (JsonFile (JObj m'))
    \<and> map_of (fs (snd (cell11 w))) (os_path_join work_dir ''config_maisi.json'') =
        Some (JsonFile (JObj d'))
    \<and> (\<forall>k. k \<notin> {''data_base_dir'', ''embedding_base_dir'', ''json_data_list'', ''model_dir'',
                 ''output_dir'', ''trained_autoencoder_path''} \<longrightarrow>
            map_of e' k = map_option sort_keys_json (map_of e k))
    \<and> map_of e' ''data_base_dir'' = Some (JStr dataroot_dir)
    \<and> (\<exists>s. map_of e ''embedding_base_dir'' = Some (JStr s)
          \<and> map_of e' ''embedding_base_dir'' = Some (JStr (os_path_join work_dir s)))
    \<and> map_of e' ''json_data_list'' = Some (JStr datalist_file)
    \<and> (\<exists>s. map_of e ''model_dir'' = Some (JStr s)
          \<and> map_of e' ''model_dir'' = Some (JStr (os_path_join work_dir s)))
    \<and> (\<exists>s. map_of e ''output_dir'' = Some (JStr s)
          \<and> map_of e' ''output_dir'' = Some (JStr (os_path_join work_dir s)))
    \<and> map_of e' ''trained_autoencoder_path'' = Some JNull
    \<and> (\<forall>k. k \<noteq> ''diffusion_unet_train'' \<longrightarrow>
            map_of m' k = map_option sort_keys_json (map_of m k))
    \<and> (\<exists>t t'. map_of m ''diffusion_unet_train'' = Some (JObj t)
          \<and> map_of m' ''diffusion_unet_train'' = Some (JObj t')
          \<and> (\<forall>k. k \<noteq> ''n_epochs'' \<longrightarrow> map_of t' k = map_option sort_keys_json (map_of t k))
          \<and> map_of t' ''n_epochs'' = Some (JInt 2))
    \<and> (\<forall>k. k \<noteq> ''autoencoder_def'' \<longrightarrow>
            map_of d' k = map_option sort_keys_json (map_of d k))
    \<and> (\<exists>t t'. map_of d ''autoencoder_def'' = Some (JObj t)
          \<and> map_of d' ''autoencoder_def'' = Some (JObj t')
          \<and> (\<forall>k. k \<noteq> ''num_splits'' \<longrightarrow> map_of t' k = map_option sort_keys_json (map_of t k))
          \<and> map_of t' ''num_splits'' = Some (JInt 4))"
proof -
  from cell11_result_of_success [OF assms] obtain kvs s1 s2 s3 kvm inner kvd inner' where
    src: "map_of (fs w) env_config_path = Some (JsonFile (JObj kvs))"
      "map_of kvs ''embedding_base_dir'' = Some (JStr s1)"
      "map_of kvs ''model_dir'' = Some (JStr s2)"
      "map_of kvs ''output_dir'' = Some (JStr s3)"
      "map_of (fs w) model_config_path = Some (JsonFile (JObj kvm))"
      "map_of kvm ''diffusion_unet_train'' = Some (JObj inner)"
      "map_of (fs w) model_def_path = Some (JsonFile (JObj kvd))"
      "map_of kvd ''autoencoder_def'' = Some (JObj inner')"
    and res: "snd (cell11 w) = cell11_result w kvs s1 s2 s3 kvm inner kvd inner'"
    by blast
  from written_env_config [OF res] obtain e' where
    e: "map_of (fs (snd (cell11 w))) env_config_filepath = Some (JsonFile (JObj e'))"
      "\<forall>k. k \<notin> {''data_base_dir'', ''embedding_base_dir'', ''json_data_list'', ''model_dir'',
                 ''output_dir'', ''trained_autoencoder_path''} \<longrightarrow>
            map_of e' k = map_option sort_keys_json (map_of kvs k)"
      "map_of e' ''data_base_dir'' = Some (JStr dataroot_dir)"
      "map_of e' ''embedding_base_dir'' = Some (JStr (os_path_join work_dir s1))"
      "map_of e' ''json_data_list'' = Some (JStr datalist_file)"
      "map_of e' ''model_dir'' = Some (JStr (os_path_join work_dir s2))"
      "map_of e' ''output_dir'' = Some (JStr (os_path_join work_dir s3))"
      "map_of e' ''trained_autoencoder_path'' = Some JNull"
    by blast
  from sorted_nested_patched [of kvm "''diffusion_unet_train''" inner "''n_epochs''" 2]
  obtain m' t' where
    m: "sort_keys_json (nested_patched kvm ''diffusion_unet_train'' inner ''n_epochs'' (JInt 2)) = JObj m'"
      "\<forall>k. k \<noteq> ''diffusion_unet_train'' \<longrightarrow> map_of m' k = map_option sort_keys_json (map_of kvm k)"
      "map_of m' ''diffusion_unet_train'' = Some (JObj t')"
      "\<forall>k. k \<noteq> ''n_epochs'' \<longrightarrow> map_of t' k = map_option sort_keys_json (map_of inner k)"
      "map_of t' ''n_epochs'' = Some (JInt 2)"
    by blast
  from sorted_nested_patched [of kvd "''autoencoder_def''" inner' "''num_splits''" 4]
  obtain d' u' where
    d: "sort_keys_json (nested_patched kvd ''autoencoder_def'' inner' ''num_splits'' (JInt 4)) = JObj d'"
      "\<forall>k. k \<noteq> ''autoencoder_def'' \<longrightarrow> map_of d' k = map_option sort_keys_json (map_of kvd k)"
      "map_of d' ''autoencoder_def'' = Some (JObj u')"
      "\<forall>k. k \<noteq> ''num_splits'' \<longrightarrow> map_of u' k = map_option sort_keys_json (map_of inner' k)"
      "map_of u' ''num_splits'' = Some (JInt 4)"
    by blast
  have files:
    "map_of (fs (snd (cell11 w))) (os_path_join work_dir ''environment_maisi_diff_model.json'') =
        Some (JsonFile (JObj e'))"
    "map_of (fs (snd (cell11 w))) (os_path_join work_dir ''config_maisi_diff_model.json'') =
        Some (JsonFile (JObj m'))"
    "map_of (fs (snd (cell11 w))) (os_path_join work_dir ''config_maisi.json'') =
        Some (JsonFile (JObj d'))"
    using e(1) written_model_files [OF res] m(1) d(1)
    by (simp_all add: env_config_filepath_def model_config_filepath_def model_def_filepath_def)
  show ?thesis
    apply (rule exI [of _ kvs], rule exI [of _ kvm], rule exI [of _ kvd])
    apply (rule exI [of _ e'], rule exI [of _ m'], rule exI [of _ d'])
    using src files e(2-) m(2-) d(2-) by blast
qed

theorem cell11_writes_patched_configs_witness:
  "fst (cell11 demo_world) = Inr ()
   \<and> (\<exists>e m d e' m' d'.
      map_of (fs demo_world) env_config_path = Some (JsonFile (JObj e))
    \<and> map_of (fs demo_world) model_config_path = Some (JsonFile (JObj m))
    \<and> map_of (fs demo_world) model_def_path = Some (JsonFile (JObj d))
    \<and> map_of (fs (snd (cell11 demo_world))) (os_path_join work_dir ''environment_maisi_diff_model.json'') =
        Some (JsonFile (JObj e'))
    \<and> map_of (fs (snd (cell11 demo_world))) (os_path_join work_dir ''config_maisi_diff_model.json'') =
        Some (JsonFile (JObj m'))
    \<and> map_of (fs (snd (cell11 demo_world))) (os_path_join work_dir ''config_maisi.json'') =
        Some (JsonFile (JObj d'))
    \<and> (\<forall>k. k \<notin> {''data_base_dir'', ''embedding_base_dir'', ''json_data_list'', ''model_dir'',
                 ''output_dir'', ''trained_autoencoder_path''} \<longrightarrow>
            map_of e' k = map_option sort_keys_json (map_of e k))
    \<and> map_of e' ''data_base_dir'' = Some (JStr dataroot_dir)
    \<and> (\<exists>s. map_of e ''embedding_base_dir'' = Some (JStr s)
          \<and> map_of e' ''embedding_base_dir'' = Some (JStr (os_path_join work_dir s)))
    \<and> map_of e' ''json_data_list'' = Some (JStr datalist_file)
    \<and> (\<exists>s. map_of e ''model_dir'' = Some (JStr s)
          \<and> map_of e' ''model_dir'' = Some (JStr (os_path_join work_dir s)))
    \<and> (\<exists>s. map_of e ''output_dir'' = Some (JStr s)
          \<and> map_of e' ''output_dir'' = Some (JStr (os_path_join work_dir s)))
    \<and> map_of e' ''trained_autoencoder_path'' = Some JNull
    \<and> (\<forall>k. k \<noteq> ''diffusion_unet_train'' \<longrightarrow>
            map_of m' k = map_option sort_keys_json (map_of m k))
    \<and> (\<exists>t t'. map_of m ''diffusion_unet_train'' = Some (JObj t)
          \<and> map_of m' ''diffusion_unet_train'' = Some (JObj t')
          \<and> (\<forall>k. k \<noteq> ''n_epochs'' \<longrightarrow> map_of t' k = map_option sort_keys_json (map_of t k))
          \<and> map_of t' ''n_epochs'' = Some (JInt 2))
    \<and> (\<forall>k. k \<noteq> ''autoencoder_def'' \<longrightarrow>
            map_of d' k = map_option sort_keys_json (map_of d k))
    \<and> (\<exists>t t'. map_of d ''autoencoder_def'' = Some (JObj t)
          \<and> map_of d' ''autoencoder_def'' = Some (JObj t')
          \<and> (\<forall>k. k \<noteq> ''num_splits'' \<longrightarrow> map_of t' k = map_option sort_keys_json (map_of t k))
          \<and> map_of t' ''num_splits'' = Some (JInt 4)))"
proof -
  have ok: "fst (cell11 demo_world) = Inr ()"
    by code_simp
  from ok cell11_writes_patched_configs [OF ok] show ?thesis
    by (rule conjI)
qed

text \<open>
  C10. When cell 11 runs through, the three variables \<open>env_config\<close>, \<open>model_config\<close>
  and \<open>model_def\<close> name objects that still equal the documents of the files they were
  read from (as those files were when read, and as they are after the cell); the
  three variables that are patched name three other objects, and no object that
  existed before the cell has changed.
\<close>

theorem cell11_keeps_loaded_configs:
  assumes "fst (cell11 w) = Inr ()"
  shows "\<exists>e m d.
      map_of (fs w) env_config_path = Some (JsonFile e)
    \<and> map_of (fs w) model_config_path = Some (JsonFile m)
    \<and> map_of (fs w) model_def_path = Some (JsonFile d)
    \<and> map_of (fs (snd (cell11 w))) env_config_path = Some (JsonFile e)
    \<and> map_of (fs (snd (cell11 w))) model_config_path = Some (JsonFile m)
    \<and> map_of (fs (snd (cell11 w))) model_def_path = Some (JsonFile d)
    \<and> env_config (snd (cell11 w)) < length (heap (snd (cell11 w)))
    \<and> model_config (snd (cell11 w)) < length (heap (snd (cell11 w)))
    \<and> model_def (snd (cell11 w)) < length (heap (snd (cell11 w)))
    \<and> heap (snd (cell11 w)) ! env_config (snd (cell11 w)) = e
    \<and> heap (snd (cell11 w)) ! model_config (snd (cell11 w)) = m
    \<and> heap (snd (cell11 w)) ! model_def (snd (cell11 w)) = d
    \<and> distinct [env_config (snd (cell11 w)), model_config (snd (cell11 w)),
                 model_def (snd (cell11 w)), env_config_out (snd (cell11 w)),
                 model_config_out (snd (cell11 w)), model_def_out (snd (cell11 w))]
    \<and> take (length (heap w)) (heap (snd (cell11 w))) = heap w"
proof -
  from cell11_result_of_success [OF assms] obtain kvs s1 s2 s3 kvm inner kvd inner' where
    src: "map_of (fs w) env_config_path = Some (JsonFile (JObj kvs))"
      "map_of (fs w) model_config_path = Some (JsonFile (JObj kvm))"
      "map_of (fs w) model_def_path = Some (JsonFile (JObj kvd))"
    and res: "snd (cell11 w) = cell11_result w kvs s1 s2 s3 kvm inner kvd inner'"
    by blast
  show ?thesis
    unfolding res using src
    by (simp add: cell11_result_def Let_def update_conv' map_of_mkdir_fs join_work_dir_neq
        join_work_dir_neq' paths_neq nth_append del: sort_keys_json.simps)
qed

theorem cell11_keeps_loaded_configs_witness:
  "fst (cell11 demo_world) = Inr ()
   \<and> (\<exists>e m d.
      map_of (fs demo_world) env_config_path = Some (JsonFile e)
    \<and> map_of (fs demo_world) model_config_path = Some (JsonFile m)
    \<and> map_of (fs demo_world) model_def_path = Some (JsonFile d)
    \<and> map_of (fs (snd (cell11 demo_world))) env_config_path = Some (JsonFile e)
    \<and> map_of (fs (snd (cell11 demo_world))) model_config_path = Some (JsonFile m)
    \<and> map_of (fs (snd (cell11 demo_world))) model_def_path = Some (JsonFile d)
    \<and> env_config (snd (cell11 demo_world)) < length (heap (snd (cell11 demo_world)))
    \<and> model_config (snd (cell11 demo_world)) < length (heap (snd (cell11 demo_world)))
    \<and> model_def (snd (cell11 demo_world)) < length (heap (snd (cell11 demo_world)))
    \<and> heap (snd (cell11 demo_world)) ! env_config (snd (cell11 demo_world)) = e
    \<and> heap (snd (cell11 demo_world)) ! model_config (snd (cell11 demo_world)) = m
    \<and> heap (snd (cell11 demo_world)) ! model_def (snd (cell11 demo_world)) = d
    \<and> distinct [env_config (snd (cell11 demo_world)), model_config (snd (cell11 demo_world)),
                 model_def (snd (cell11 demo_world)), env_config_out (snd (cell11 demo_world)),
                 model_config_out (snd (cell11 demo_world)), model_def_out (snd (cell11 demo_world))]
    \<and> take (length (heap demo_world)) (heap (snd (cell11 demo_world))) = heap demo_world)"
proof -
  have ok: "fst (cell11 demo_world) = Inr ()"
    by code_simp
  from ok cell11_keeps_loaded_configs [OF ok] show ?thesis
    by (rule conjI)
qed

text \<open>
  C1. The notebook launches subprocesses through \<open>run_torchrun\<close> only, and in this
  order: \<^verbatim>\<open>scripts.diff_model_create_training_data\<close>, \<^verbatim>\<open>scripts.diff_model_train\<close>,
  \<^verbatim>\<open>scripts.diff_model_infer\<close>, each with the same three arguments
  \<^verbatim>\<open>--env_config\<close>, \<^verbatim>\<open>--model_config\<close> and \<^verbatim>\<open>--model_def\<close> naming the three files of the
  work directory, on one GPU. In every run, from any state and on any platform, the
  launches made are the first \<open>j\<close> of these three, in this order; a notebook that runs
  through has made exactly the three.
\<close>

theorem notebook_launches_three_stages:
  "\<exists>j\<le>3.
     popen_calls (snd (notebook P w)) =
       popen_calls w @
       take j (map (\<lambda>module_name.
                      ([''torchrun'', ''--nproc_per_node'', ''1'', ''--nnodes'', ''1'', ''-m'',
                        module_name,
                        ''--env_config'', ''./temp_work_dir/environment_maisi_diff_model.json'',
                        ''--model_config'', ''./temp_work_dir/config_maisi_diff_model.json'',
                        ''--model_def'', ''./temp_work_dir/config_maisi.json''],
                       AList.update ''OMP_NUM_THREADS'' ''1'' (environ w)))
                 [''scripts.diff_model_create_training_data'', ''scripts.diff_model_train'',
                  ''scripts.diff_model_infer''])
   \<and> (fst (notebook P w) = Inr () \<longrightarrow> j = 3)"
proof -
  from notebook_outcome [of P w] obtain j where "j \<le> 3"
    "popen_calls (snd (notebook P w)) =
         popen_calls w @ take j [stage_call ''scripts.diff_model_create_training_data'' (environ w),
                                 stage_call ''scripts.diff_model_train'' (environ w),
                                 stage_call ''scripts.diff_model_infer'' (environ w)]"
    "fst (notebook P w) = Inr () \<longrightarrow> j = 3"
    by blast
  then show ?thesis
    by (intro exI [of _ j]) (simp add: stage_call_def out_paths)
qed

theorem notebook_launches_three_stages_witness:
  "fst (notebook demo_platform demo_world) = Inr ()
   \<and> popen_calls (snd (notebook demo_platform demo_world)) =
       [([''torchrun'', ''--nproc_per_node'', ''1'', ''--nnodes'', ''1'', ''-m'',
          ''scripts.diff_model_create_training_data'',
          ''--env_config'', ''./temp_work_dir/environment_maisi_diff_model.json'',
          ''--model_config'', ''./temp_work_dir/config_maisi_diff_model.json'',
          ''--model_def'', ''./temp_work_dir/config_maisi.json''],
         [(''PATH'', ''/usr/bin''), (''OMP_NUM_THREADS'', ''1'')]),
        ([''torchrun'', ''--nproc_per_node'', ''1'', ''--nnodes'', ''1'', ''-m'',
          ''scripts.diff_model_train'',
          ''--env_config'', ''./temp_work_dir/environment_maisi_diff_model.json'',
          ''--model_config'', ''./temp_work_dir/config_maisi_diff_model.json'',
          ''--model_def'', ''./temp_work_dir/config_maisi.json''],
         [(''PATH'', ''/usr/bin''), (''OMP_NUM_THREADS'', ''1'')]),
        ([''torchrun'', ''--nproc_per_node'', ''1'', ''--nnodes'', ''1'', ''-m'',
          ''scripts.diff_model_infer'',
          ''--env_config'', ''./temp_work_dir/environment_maisi_diff_model.json'',
          ''--model_config'', ''./temp_work_dir/config_maisi_diff_model.json'',
          ''--model_def'', ''./temp_work_dir/config_maisi.json''],
         [(''PATH'', ''/usr/bin''), (''OMP_NUM_THREADS'', ''1'')])]"
proof -
  have ok: "fst (notebook demo_platform demo_world) = Inr ()"
    by (simp add: notebook_demo)
  from notebook_launches_three_stages [of demo_platform demo_world] ok
  have "popen_calls (snd (notebook demo_platform demo_world)) =
       popen_calls demo_world @
       take 3 (map (\<lambda>module_name.
                      ([''torchrun'', ''--nproc_per_node'', ''1'', ''--nnodes'', ''1'', ''-m'',
                        module_name,
                        ''--env_config'', ''./temp_work_dir/environment_maisi_diff_model.json'',
                        ''--model_config'', ''./temp_work_dir/config_maisi_diff_model.json'',
                        ''--model_def'', ''./temp_work_dir/config_maisi.json''],
                       AList.update ''OMP_NUM_THREADS'' ''1'' (environ demo_world)))
                 [''scripts.diff_model_create_training_data'', ''scripts.diff_model_train'',
                  ''scripts.diff_model_infer''])"
    by blast
  then have "popen_calls (snd (notebook demo_platform demo_world)) =
       [([''torchrun'', ''--nproc_per_node'', ''1'', ''--nnodes'', ''1'', ''-m'',
          ''scripts.diff_model_create_training_data'',
          ''--env_config'', ''./temp_work_dir/environment_maisi_diff_model.json'',
          ''--model_config'', ''./temp_work_dir/config_maisi_diff_model.json'',
          ''--model_def'', ''./temp_work_dir/config_maisi.json''],
         [(''PATH'', ''/usr/bin''), (''OMP_NUM_THREADS'', ''1'')]),
        ([''torchrun'', ''--nproc_per_node'', ''1'', ''--nnodes'', ''1'', ''-m'',
          ''scripts.diff_model_train'',
          ''--env_config'', ''./temp_work_dir/environment_maisi_diff_model.json'',
          ''--model_config'', ''./temp_work_dir/config_maisi_diff_model.json'',
          ''--model_def'', ''./temp_work_dir/config_maisi.json''],
         [(''PATH'', ''/usr/bin''), (''OMP_NUM_THREADS'', ''1'')]),
        ([''torchrun'', ''--nproc_per_node'', ''1'', ''--nnodes'', ''1'', ''-m'',
          ''scripts.diff_model_infer'',
          ''--env_config'', ''./temp_work_dir/environment_maisi_diff_model.json'',
          ''--model_config'', ''./temp_work_dir/config_maisi_diff_model.json'',
          ''--model_def'', ''./temp_work_dir/config_maisi.json''],
         [(''PATH'', ''/usr/bin''), (''OMP_NUM_THREADS'', ''1'')])]"
    by (simp add: demo_world_def)
  with ok show ?thesis by (rule conjI)
qed







end
